theory Spec2Isabelle
  imports Main
begin

section \<open>The blob storage client proxy\<close>

text \<open>
  A shallow embedding of the class \<open>BlobStorageClientProxy\<close>. The proxy wraps the
  client objects of the cloud storage library; that library and the storage account
  behind it are not part of the program, so every library call the proxy makes is a
  field of the record \<open>Sdk\<close> below, a function of the state \<open>'s\<close> of the outside
  world (the storage account and the local file system). A rejected promise or a thrown
  exception is the left summand of a result.
\<close>

subsection \<open>Errors\<close>

text \<open>
  The provider-level failures of the library (not found, authorization denied, network
  fault, malformed request, conflict) and the two exceptions the JavaScript runtime raises by
  itself: \<open>TypeError\<close> for a property read on \<open>undefined\<close>, \<open>RangeError\<close> for
  an argument outside its range.
\<close>

datatype error =
    NotFound
  | AuthorizationDenied
  | NetworkFault
  | MalformedRequest
  | Conflict
  | TypeError
  | RangeError

subsection \<open>JavaScript strings and truthiness\<close>

text \<open>
  An optional string parameter is a \<open>string option\<close>, \<open>None\<close> for
  \<open>undefined\<close>. A template literal prints \<open>undefined\<close> as the nine letters;
  \<open>Array.prototype.join\<close> prints it as the empty string; a condition holds for
  every string but \<open>undefined\<close> and the empty one.
\<close>

definition js_template :: "string option \<Rightarrow> string" where
  "js_template s = (case s of None \<Rightarrow> ''undefined'' | Some t \<Rightarrow> t)"

definition js_join_element :: "string option \<Rightarrow> string" where
  "js_join_element s = (case s of None \<Rightarrow> [] | Some t \<Rightarrow> t)"

fun js_join :: "string \<Rightarrow> string option list \<Rightarrow> string" where
  "js_join sep [] = []"
| "js_join sep [x] = js_join_element x"
| "js_join sep (x # y # ys) = js_join_element x @ sep @ js_join sep (y # ys)"

definition js_truthy :: "string option \<Rightarrow> bool" where
  "js_truthy s = (case s of None \<Rightarrow> False | Some t \<Rightarrow> t \<noteq> [])"

subsection \<open>The proxy and the client handles\<close>

record StorageSharedKeyCredential =
  accountName :: string
  accountKey :: string

text \<open>\<open>new BlobServiceClient(url, credential)\<close> keeps its two arguments.\<close>

record BlobServiceClient =
  serviceUrl :: string
  serviceCredential :: StorageSharedKeyCredential

record BlobStorageClientProxy =
  credential :: StorageSharedKeyCredential
  blobEndpoint :: string
  storageService :: BlobServiceClient

text \<open>The constructor: the service client is built from the account name and the endpoint.\<close>

definition new_BlobStorageClientProxy ::
  "StorageSharedKeyCredential \<Rightarrow> string \<Rightarrow> BlobStorageClientProxy" where
  "new_BlobStorageClientProxy cred endpoint =
     \<lparr> credential = cred,
       blobEndpoint = endpoint,
       storageService =
         \<lparr> serviceUrl = ''https://'' @ accountName cred @ ''.'' @ endpoint,
           serviceCredential = cred \<rparr> \<rparr>"

text \<open>
  A container client is the service client it was asked from and the container's name;
  a block blob client is a container client and the blob's name. Creating a handle
  makes no request.
\<close>

record ContainerClient =
  containerService :: BlobServiceClient
  containerName :: string

record BlockBlobClient =
  blobContainer :: ContainerClient
  blobName :: string

definition getContainerClient :: "BlobStorageClientProxy \<Rightarrow> string \<Rightarrow> ContainerClient" where
  "getContainerClient this container =
     \<lparr> containerService = storageService this, containerName = container \<rparr>"

definition getBlobClient :: "BlobStorageClientProxy \<Rightarrow> string \<Rightarrow> string \<Rightarrow> BlockBlobClient" where
  "getBlobClient this container blob =
     \<lparr> blobContainer = getContainerClient this container, blobName = blob \<rparr>"

subsection \<open>getUrl\<close>

text \<open>
  \<^verbatim>\<open>
  return [
      `https://${this.credential.accountName}.${this.blobEndpoint}`,
      container,
      blob ? `/${blob}${sasToken}` : sasToken
  ].join("/");
  \<close>
\<close>

definition getUrl ::
  "BlobStorageClientProxy \<Rightarrow> string \<Rightarrow> string option \<Rightarrow> string option \<Rightarrow> string" where
  "getUrl this container blob sasToken =
     js_join ''/''
       [ Some (''https://'' @ accountName (credential this) @ ''.'' @ blobEndpoint this),
         Some container,
         (if js_truthy blob then Some (''/'' @ js_template blob @ js_template sasToken)
          else sasToken) ]"

subsection \<open>What the storage library returns\<close>

text \<open>
  A continuation token is opaque (the source types it \<open>any\<close>); a date is an instant;
  a request option bag is a list of named settings that the proxy hands on unread. A
  buffer is a sequence of bytes, each a natural number below 256.
\<close>

type_synonym Token = string
type_synonym Date = int
type_synonym StorageRequestOptions = "(string \<times> string) list"
type_synonym Buffer = "nat list"

text \<open>
  The properties the library reports for a blob, in a listing and in the answer to
  \<open>getProperties\<close>: the four the proxy could read.
\<close>

record SdkBlobProperties =
  sdk_contentLength :: "int option"
  sdk_contentType :: "string option"
  sdk_createdOn :: "Date option"
  sdk_lastModified :: Date

record BlobItem =
  item_name :: string
  item_properties :: SdkBlobProperties

record BlobPrefix =
  prefix_name :: string

record Segment =
  blobPrefixes :: "BlobPrefix list"
  blobItems :: "BlobItem list"

text \<open>
  One page of a hierarchical listing: a segment with both of its arrays, and the token
  of the page after it, which the library reports on each page and leaves out on the
  last one.
\<close>

record Page =
  segment :: Segment
  page_continuationToken :: "Token option"

record PageSettings =
  settings_continuationToken :: "Token option"
  maxPageSize :: "int option"

type_synonym ContainerProperties = "(string \<times> string) list"

record ContainerItem =
  container_name :: string
  container_properties :: ContainerProperties

record ContainerPage =
  containerItems :: "ContainerItem list"

type_synonym StorageBlobResponse = "(string \<times> string) list"

text \<open>
  The calls the proxy makes on the library. A call that only reads the storage account
  is a function of the world's state; a call that may change it (or the local file
  system) also returns the new state. \<open>sdk_listBlobsByHierarchy\<close> stands for
  \<open>listBlobsByHierarchy(delimiter, {prefix}).byPage(settings)\<close> iterated to its end:
  the pages in the order the iterator yields them, or the error that stopped it.
  \<open>sdk_listContainers\<close> likewise, its last argument being whatever was handed to
  \<open>byPage\<close>.
\<close>

record 's Sdk =
  sdk_listBlobsByHierarchy ::
    "ContainerClient \<Rightarrow> string option \<Rightarrow> string option \<Rightarrow> PageSettings \<Rightarrow> 's
      \<Rightarrow> error + Page list"
  sdk_getProperties ::
    "BlockBlobClient \<Rightarrow> StorageRequestOptions option \<Rightarrow> 's \<Rightarrow> error + SdkBlobProperties"
  sdk_downloadToBuffer ::
    "BlockBlobClient \<Rightarrow> nat \<Rightarrow> nat option \<Rightarrow> StorageRequestOptions option \<Rightarrow> 's
      \<Rightarrow> error + Buffer"
  sdk_downloadToFile ::
    "BlockBlobClient \<Rightarrow> string \<Rightarrow> nat option \<Rightarrow> nat option \<Rightarrow> StorageRequestOptions option
      \<Rightarrow> 's \<Rightarrow> (error + unit) \<times> 's"
  sdk_deleteIfExists ::
    "BlockBlobClient \<Rightarrow> StorageRequestOptions option \<Rightarrow> 's \<Rightarrow> (error + bool) \<times> 's"
  sdk_listContainers ::
    "BlobServiceClient \<Rightarrow> StorageRequestOptions \<Rightarrow> Token option \<Rightarrow> 's
      \<Rightarrow> error + ContainerPage list"
  sdk_containerGetProperties ::
    "ContainerClient \<Rightarrow> StorageRequestOptions option \<Rightarrow> 's \<Rightarrow> error + ContainerProperties"
  sdk_deleteContainer ::
    "BlobServiceClient \<Rightarrow> string \<Rightarrow> StorageRequestOptions option \<Rightarrow> 's
      \<Rightarrow> (error + unit) \<times> 's"
  sdk_createContainer ::
    "BlobServiceClient \<Rightarrow> string \<Rightarrow> 's \<Rightarrow> (error + unit) \<times> 's"
  sdk_createIfNotExists ::
    "ContainerClient \<Rightarrow> StorageRequestOptions option \<Rightarrow> 's \<Rightarrow> (error + bool) \<times> 's"
  sdk_BlobSASPermissions_parse :: "string \<Rightarrow> error + string"
  sdk_ContainerSASPermissions_parse :: "string \<Rightarrow> error + string"
  sdk_blobGenerateSasUrl :: "BlockBlobClient \<Rightarrow> string \<Rightarrow> 's \<Rightarrow> error + string"
  sdk_containerGenerateSasUrl :: "ContainerClient \<Rightarrow> string \<Rightarrow> 's \<Rightarrow> error + string"
  sdk_uploadFile ::
    "BlockBlobClient \<Rightarrow> string \<Rightarrow> 's \<Rightarrow> (error + StorageBlobResponse) \<times> 's"

subsection \<open>What the proxy returns\<close>

record Properties =
  contentLength :: "int option"
  contentType :: "string option"
  creationTime :: "Date option"
  lastModified :: Date

record BlobDescriptor =
  name :: string
  url :: string
  isDirectory :: bool
  properties :: "Properties option"

record 'a BlobStorageResult =
  data :: 'a
  continuationToken :: "Token option"

record ListBlobOptions =
  folder :: "string option"
  recursive :: "bool option"
  limit :: "int option"

text \<open>The default \<open>options = {}\<close> of \<open>listBlobs\<close>.\<close>

definition no_options :: ListBlobOptions where
  "no_options = \<lparr> folder = None, recursive = None, limit = None \<rparr>"

subsection \<open>listBlobs\<close>

text \<open>
  \<^verbatim>\<open>
  for (const prefix of segment.blobPrefixes) {
      blobs.push({ name: prefix.name, url: `${container}/${prefix.name}`, isDirectory: true });
  }
  \<close>
\<close>

definition prefix_descriptor :: "string \<Rightarrow> BlobPrefix \<Rightarrow> BlobDescriptor" where
  "prefix_descriptor container p =
     \<lparr> name = prefix_name p,
       url = container @ ''/'' @ prefix_name p,
       isDirectory = True,
       properties = None \<rparr>"

fun push_prefixes :: "string \<Rightarrow> BlobPrefix list \<Rightarrow> BlobDescriptor list \<Rightarrow> BlobDescriptor list" where
  "push_prefixes container [] blobs = blobs"
| "push_prefixes container (p # ps) blobs =
     push_prefixes container ps (blobs @ [prefix_descriptor container p])"

text \<open>
  \<^verbatim>\<open>
  for (const blob of segment.blobItems) {
      blobs.push({
          name: blob.name, url: `${container}/${blob.name}`, isDirectory: false,
          properties: {
              contentLength: blob.properties.contentLength,
              contentType: blob.properties.contentType,
              creationTime: null,
              lastModified: blob.properties.lastModified,
          }
      });
  }
  \<close>
\<close>

definition item_descriptor :: "string \<Rightarrow> BlobItem \<Rightarrow> BlobDescriptor" where
  "item_descriptor container b =
     \<lparr> name = item_name b,
       url = container @ ''/'' @ item_name b,
       isDirectory = False,
       properties = Some
         \<lparr> contentLength = sdk_contentLength (item_properties b),
           contentType = sdk_contentType (item_properties b),
           creationTime = None,
           lastModified = sdk_lastModified (item_properties b) \<rparr> \<rparr>"

fun push_items :: "string \<Rightarrow> BlobItem list \<Rightarrow> BlobDescriptor list \<Rightarrow> BlobDescriptor list" where
  "push_items container [] blobs = blobs"
| "push_items container (b # bs) blobs =
     push_items container bs (blobs @ [item_descriptor container b])"

text \<open>The loop \<open>for await (const page of pages)\<close> over the pages that were yielded.\<close>

fun push_pages :: "string \<Rightarrow> Page list \<Rightarrow> BlobDescriptor list \<Rightarrow> BlobDescriptor list" where
  "push_pages container [] blobs = blobs"
| "push_pages container (page # pages) blobs =
     push_pages container pages
       (push_items container (blobItems (segment page))
          (push_prefixes container (blobPrefixes (segment page)) blobs))"

text \<open>
  \<^verbatim>\<open>
  const prefix = options.folder;
  const delimiter = options.recursive ? null : "/";
  const client = this.getContainerClient(container);
  const blobs = [];
  const pages = client.listBlobsByHierarchy(delimiter, { prefix })
      .byPage({ continuationToken, maxPageSize: options.limit });
  for await (const page of pages) { ... }
  return { data: blobs, continuationToken };
  \<close>
  The token returned is the parameter \<open>continuationToken\<close>: nothing assigns to it.
\<close>

definition listBlobs ::
  "'s Sdk \<Rightarrow> BlobStorageClientProxy \<Rightarrow> string \<Rightarrow> ListBlobOptions \<Rightarrow> Token option \<Rightarrow> 's
    \<Rightarrow> error + (BlobDescriptor list) BlobStorageResult" where
  "listBlobs sdk this container options token st =
     (let prefix = folder options;
          delimiter = (if recursive options = Some True then None else Some ''/'');
          client = getContainerClient this container
      in case sdk_listBlobsByHierarchy sdk client delimiter prefix
                \<lparr> settings_continuationToken = token, maxPageSize = limit options \<rparr> st of
           Inl e \<Rightarrow> Inl e
         | Inr pages \<Rightarrow>
             Inr \<lparr> data = push_pages container pages [], continuationToken = token \<rparr>)"

subsection \<open>getBlobProperties\<close>

text \<open>
  \<^verbatim>\<open>
  const client = this.getBlobClient(container, blobName);
  const blobPath = blobPrefix + blobName;
  const props = await client.getProperties(options);
  return { data: { name: blobName, url: `${container}/${blobPath}`, isDirectory: false,
                   properties: { contentLength: props.contentLength,
                                 contentType: props.contentType,
                                 creationTime: null,
                                 lastModified: props.lastModified } } };
  \<close>
  The parameter \<open>blobPrefix\<close> defaults to the empty string.
\<close>

definition getBlobProperties ::
  "'s Sdk \<Rightarrow> BlobStorageClientProxy \<Rightarrow> string \<Rightarrow> string \<Rightarrow> string option
    \<Rightarrow> StorageRequestOptions option \<Rightarrow> 's \<Rightarrow> error + BlobDescriptor BlobStorageResult" where
  "getBlobProperties sdk this container blob blobPrefix options st =
     (let client = getBlobClient this container blob;
          blobPath = (case blobPrefix of None \<Rightarrow> [] | Some p \<Rightarrow> p) @ blob
      in case sdk_getProperties sdk client options st of
           Inl e \<Rightarrow> Inl e
         | Inr props \<Rightarrow>
             Inr \<lparr> data =
                     \<lparr> name = blob,
                       url = container @ ''/'' @ blobPath,
                       isDirectory = False,
                       properties = Some
                         \<lparr> contentLength = sdk_contentLength props,
                           contentType = sdk_contentType props,
                           creationTime = None,
                           lastModified = sdk_lastModified props \<rparr> \<rparr>,
                   continuationToken = None \<rparr>)"

subsection \<open>getBlobContent\<close>

text \<open>
  A decoded text is the sequence of its code points. The three functions
  \<open>getBlobContent\<close> calls outside the class are the fields of \<open>TextEnv\<close>:
  \<open>EncodingUtils.detectEncodingFromBuffer\<close> (its answer's \<open>encoding\<close> field,
  \<open>None\<close> for \<open>null\<close>), \<open>new TextDecoder(encoding).decode(buffer)\<close>, which
  throws for a label it does not know, and \<open>buffer.toString()\<close>.
\<close>

type_synonym Text = "nat list"

record TextEnv =
  detectEncodingFromBuffer :: "Buffer \<Rightarrow> nat \<Rightarrow> error + string option"
  textDecoder_decode :: "string \<Rightarrow> Buffer \<Rightarrow> error + Text"
  buffer_toString :: "Buffer \<Rightarrow> Text"

record BlobContent =
  content :: Text

text \<open>
  \<^verbatim>\<open>
  private _getBlobAsBuffer(container, blob, options): Promise<Buffer> {
      return this.getBlobClient(container, blob).downloadToBuffer(0, null, options);
  }
  \<close>
\<close>

definition getBlobAsBuffer ::
  "'s Sdk \<Rightarrow> BlobStorageClientProxy \<Rightarrow> string \<Rightarrow> string \<Rightarrow> StorageRequestOptions option
    \<Rightarrow> 's \<Rightarrow> error + Buffer" where
  "getBlobAsBuffer sdk this container blob options st =
     sdk_downloadToBuffer sdk (getBlobClient this container blob) 0 None options st"

text \<open>
  \<^verbatim>\<open>
  const buffer = await this._getBlobAsBuffer(container, blob, options);
  const { encoding } = await EncodingUtils.detectEncodingFromBuffer(
      { buffer, bytesRead: buffer.length });
  let content;
  if (encoding) {
      content = new TextDecoder(encoding).decode(buffer);
  } else {
      content = buffer.toString();
  }
  return { content };
  \<close>
\<close>

definition getBlobContent ::
  "TextEnv \<Rightarrow> 's Sdk \<Rightarrow> BlobStorageClientProxy \<Rightarrow> string \<Rightarrow> string
    \<Rightarrow> StorageRequestOptions option \<Rightarrow> 's \<Rightarrow> error + BlobContent" where
  "getBlobContent env sdk this container blob options st =
     (case getBlobAsBuffer sdk this container blob options st of
        Inl e \<Rightarrow> Inl e
      | Inr buffer \<Rightarrow>
          (case detectEncodingFromBuffer env buffer (length buffer) of
             Inl e \<Rightarrow> Inl e
           | Inr encoding \<Rightarrow>
               if js_truthy encoding then
                 (case textDecoder_decode env (js_template encoding) buffer of
                    Inl e \<Rightarrow> Inl e
                  | Inr decoded \<Rightarrow> Inr \<lparr> content = decoded \<rparr>)
               else Inr \<lparr> content = buffer_toString env buffer \<rparr>))"

subsection \<open>The operations that hand one call on\<close>

text \<open>
  \<^verbatim>\<open>
  const client = this.getBlobClient(container, blob);
  await client.downloadToFile(localFileName, undefined, undefined, options);
  return;
  \<close>
\<close>

definition getBlobToLocalFile ::
  "'s Sdk \<Rightarrow> BlobStorageClientProxy \<Rightarrow> string \<Rightarrow> string \<Rightarrow> string
    \<Rightarrow> StorageRequestOptions option \<Rightarrow> 's \<Rightarrow> (error + unit) \<times> 's" where
  "getBlobToLocalFile sdk this container blob localFileName options st =
     sdk_downloadToFile sdk (getBlobClient this container blob) localFileName None None
       options st"

text \<open>
  \<^verbatim>\<open>
  const client = this.getBlobClient(container, blob);
  const response = await client.deleteIfExists(options);
  return response.succeeded;
  \<close>
  The library call stands for the \<open>succeeded\<close> field of its response.
\<close>

definition deleteBlobIfExists ::
  "'s Sdk \<Rightarrow> BlobStorageClientProxy \<Rightarrow> string \<Rightarrow> string \<Rightarrow> StorageRequestOptions option
    \<Rightarrow> 's \<Rightarrow> (error + bool) \<times> 's" where
  "deleteBlobIfExists sdk this container blob options st =
     sdk_deleteIfExists sdk (getBlobClient this container blob) options st"

text \<open>
  \<^verbatim>\<open>
  const client = this.getContainerClient(containerName);
  const response = await client.createIfNotExists(options);
  return response.succeeded;
  \<close>
\<close>

definition createContainerIfNotExists ::
  "'s Sdk \<Rightarrow> BlobStorageClientProxy \<Rightarrow> string \<Rightarrow> StorageRequestOptions option
    \<Rightarrow> 's \<Rightarrow> (error + bool) \<times> 's" where
  "createContainerIfNotExists sdk this containerName' options st =
     sdk_createIfNotExists sdk (getContainerClient this containerName') options st"

text \<open>\<^verbatim>\<open>await this.storageService.deleteContainer(container, options); return;\<close>\<close>

definition deleteContainer ::
  "'s Sdk \<Rightarrow> BlobStorageClientProxy \<Rightarrow> string \<Rightarrow> StorageRequestOptions option
    \<Rightarrow> 's \<Rightarrow> (error + unit) \<times> 's" where
  "deleteContainer sdk this container options st =
     sdk_deleteContainer sdk (storageService this) container options st"

text \<open>\<^verbatim>\<open>await this.storageService.createContainer(containerName); return;\<close>\<close>

definition createContainer ::
  "'s Sdk \<Rightarrow> BlobStorageClientProxy \<Rightarrow> string \<Rightarrow> 's \<Rightarrow> (error + unit) \<times> 's" where
  "createContainer sdk this containerName' st =
     sdk_createContainer sdk (storageService this) containerName' st"

text \<open>
  \<^verbatim>\<open>
  const client = this.getContainerClient(container);
  const response = await client.getProperties(options);
  return { data: response };
  \<close>
\<close>

definition getContainerProperties ::
  "'s Sdk \<Rightarrow> BlobStorageClientProxy \<Rightarrow> string \<Rightarrow> StorageRequestOptions option \<Rightarrow> 's
    \<Rightarrow> error + ContainerProperties BlobStorageResult" where
  "getContainerProperties sdk this container options st =
     (case sdk_containerGetProperties sdk (getContainerClient this container) options st of
        Inl e \<Rightarrow> Inl e
      | Inr response \<Rightarrow> Inr \<lparr> data = response, continuationToken = None \<rparr>)"

text \<open>\<^verbatim>\<open>return this.getBlobClient(container, blobName).uploadFile(file);\<close>\<close>

definition uploadFile ::
  "'s Sdk \<Rightarrow> BlobStorageClientProxy \<Rightarrow> string \<Rightarrow> string \<Rightarrow> string \<Rightarrow> 's
    \<Rightarrow> (error + StorageBlobResponse) \<times> 's" where
  "uploadFile sdk this container file blob st =
     sdk_uploadFile sdk (getBlobClient this container blob) file st"

subsection \<open>listContainersWithPrefix\<close>

text \<open>
  Each container item is copied with one more field, \<open>id\<close>, equal to its name
  (\<open>{ ...container, id: container.name }\<close>).
\<close>

record ContainerEntry = ContainerItem +
  entry_id :: string

fun push_containers :: "ContainerItem list \<Rightarrow> ContainerEntry list \<Rightarrow> ContainerEntry list" where
  "push_containers [] containers = containers"
| "push_containers (c # cs) containers =
     push_containers cs
       (containers @ [\<lparr> container_name = container_name c,
                        container_properties = container_properties c,
                        entry_id = container_name c \<rparr>])"

fun push_container_pages :: "ContainerPage list \<Rightarrow> ContainerEntry list \<Rightarrow> ContainerEntry list" where
  "push_container_pages [] containers = containers"
| "push_container_pages (page # pages) containers =
     push_container_pages pages (push_containers (containerItems page) containers)"

text \<open>
  The option bag \<open>{ prefix, ...options }\<close>: the entry \<open>prefix\<close> first, with the
  value \<open>options\<close> gives it when it has one, then the other entries of \<open>options\<close>.
\<close>

definition spread_prefix :: "string \<Rightarrow> StorageRequestOptions option \<Rightarrow> StorageRequestOptions" where
  "spread_prefix prefix options =
     (case options of
        None \<Rightarrow> [(''prefix'', prefix)]
      | Some os \<Rightarrow>
          (''prefix'', (case map_of os ''prefix'' of None \<Rightarrow> prefix | Some v \<Rightarrow> v))
            # filter (\<lambda>kv. fst kv \<noteq> ''prefix'') os)"

text \<open>
  \<^verbatim>\<open>
  const containers = []
  const pages = this.storageService.listContainers({ prefix, ...options })
      .byPage(continuationToken);
  for await (const page of pages) {
      for (const container of page.containerItems) {
          containers.push({ ...container, id: container.name });
      }
  }
  return { data: containers, continuationToken };
  \<close>
\<close>

definition listContainersWithPrefix ::
  "'s Sdk \<Rightarrow> BlobStorageClientProxy \<Rightarrow> string \<Rightarrow> Token option \<Rightarrow> StorageRequestOptions option
    \<Rightarrow> 's \<Rightarrow> error + (ContainerEntry list) BlobStorageResult" where
  "listContainersWithPrefix sdk this prefix token options st =
     (case sdk_listContainers sdk (storageService this) (spread_prefix prefix options) token st of
        Inl e \<Rightarrow> Inl e
      | Inr pages \<Rightarrow>
          Inr \<lparr> data = push_container_pages pages [], continuationToken = token \<rparr>)"

subsection \<open>generateSasUrl\<close>

text \<open>
  Modelled from the spec: the interface \<open>SharedAccessPolicy\<close> is declared in the
  module \<open>./models\<close>, which is not among the sources; the spec calls it a permission
  and expiry descriptor, and the method reads \<open>accessPolicy.AccessPolicy.Permissions\<close>.
\<close>

record AccessPolicyFields =
  Permissions :: string
  Expiry :: "string option"

record SharedAccessPolicy =
  AccessPolicy :: AccessPolicyFields

text \<open>
  \<^verbatim>\<open>
  const permissions = accessPolicy.AccessPolicy.Permissions;
  if (blob) {
      return this.getBlobClient(container, blob).generateSasUrl({
          permissions: BlobSASPermissions.parse(permissions) });
  } else {
      return this.getContainerClient(container).generateSasUrl({
          permissions: ContainerSASPermissions.parse(permissions) });
  }
  \<close>
  The parameter \<open>accessPolicy\<close> is optional; reading a property of \<open>undefined\<close>
  throws a \<open>TypeError\<close>.
\<close>

definition generateSasUrl ::
  "'s Sdk \<Rightarrow> BlobStorageClientProxy \<Rightarrow> string \<Rightarrow> string option \<Rightarrow> SharedAccessPolicy option
    \<Rightarrow> 's \<Rightarrow> error + string" where
  "generateSasUrl sdk this container blob accessPolicy st =
     (case accessPolicy of
        None \<Rightarrow> Inl TypeError
      | Some policy \<Rightarrow>
          (let permissions = Permissions (AccessPolicy policy) in
           if js_truthy blob then
             (case sdk_BlobSASPermissions_parse sdk permissions of
                Inl e \<Rightarrow> Inl e
              | Inr parsed \<Rightarrow>
                  sdk_blobGenerateSasUrl sdk
                    (getBlobClient this container (js_template blob)) parsed st)
           else
             (case sdk_ContainerSASPermissions_parse sdk permissions of
                Inl e \<Rightarrow> Inl e
              | Inr parsed \<Rightarrow>
                  sdk_containerGenerateSasUrl sdk
                    (getContainerClient this container) parsed st)))"

section \<open>The runtime's UTF-8\<close>

text \<open>
  The two decoders of the runtime that \<open>getBlobContent\<close> calls, as the Encoding
  standard gives them. The UTF-8 decoder reads one byte at a time and keeps the code
  point being assembled, the number of continuation bytes seen and needed, and the range
  the next continuation byte must lie in; a byte that cannot continue a sequence ends it
  with U+FFFD and is read again as the start of the next one. Masking a lead byte is
  written as a remainder (\<open>b AND 0x1F = b mod 32\<close>) and appending six bits as
  \<open>cp * 64 + b mod 64\<close>.
\<close>

function utf8_decoder :: "nat \<Rightarrow> nat \<Rightarrow> nat \<Rightarrow> nat \<Rightarrow> nat \<Rightarrow> Buffer \<Rightarrow> Text" where
  "utf8_decoder cp seen needed lower upper [] = (if needed \<noteq> 0 then [0xFFFD] else [])"
| "utf8_decoder cp seen needed lower upper (b # bs) =
     (if needed = 0 then
        (if b \<le> 0x7F then b # utf8_decoder 0 0 0 0x80 0xBF bs
         else if 0xC2 \<le> b \<and> b \<le> 0xDF then utf8_decoder (b mod 32) 0 1 0x80 0xBF bs
         else if 0xE0 \<le> b \<and> b \<le> 0xEF then
           utf8_decoder (b mod 16) 0 2
             (if b = 0xE0 then 0xA0 else 0x80) (if b = 0xED then 0x9F else 0xBF) bs
         else if 0xF0 \<le> b \<and> b \<le> 0xF4 then
           utf8_decoder (b mod 8) 0 3
             (if b = 0xF0 then 0x90 else 0x80) (if b = 0xF4 then 0x8F else 0xBF) bs
         else 0xFFFD # utf8_decoder 0 0 0 0x80 0xBF bs)
      else if b < lower \<or> upper < b then 0xFFFD # utf8_decoder 0 0 0 0x80 0xBF (b # bs)
      else if seen + 1 = needed then (cp * 64 + b mod 64) # utf8_decoder 0 0 0 0x80 0xBF bs
      else utf8_decoder (cp * 64 + b mod 64) (seen + 1) needed 0x80 0xBF bs)"
  by pat_completeness auto
termination
  by (relation "measure (\<lambda>(cp, seen, needed, lower, upper, bs).
        2 * length bs + (if needed = 0 then 0 else 1))") auto

declare utf8_decoder.simps [simp del]

definition utf8_decode :: "Buffer \<Rightarrow> Text" where
  "utf8_decode bytes = utf8_decoder 0 0 0 0x80 0xBF bytes"

text \<open>
  \<open>buffer.toString()\<close> decodes the bytes as UTF-8. A \<open>TextDecoder\<close> made with
  a label of UTF-8 does the same and then drops one leading byte order mark (its
  \<open>ignoreBOM\<close> is false by default); a label is compared after its leading and
  trailing ASCII whitespace (tab, line feed, form feed, carriage return, space) is
  removed, and without regard to case.
  What the decoder does for the labels of other encodings is the parameter \<open>other\<close>.
\<close>

definition strip_bom :: "Text \<Rightarrow> Text" where
  "strip_bom t = (case t of [] \<Rightarrow> [] | c # cs \<Rightarrow> if c = 0xFEFF then cs else c # cs)"

definition ascii_lower :: "char \<Rightarrow> char" where
  "ascii_lower c =
     (case map_of (zip ''ABCDEFGHIJKLMNOPQRSTUVWXYZ'' ''abcdefghijklmnopqrstuvwxyz'') c of
        None \<Rightarrow> c
      | Some l \<Rightarrow> l)"

definition ascii_whitespace :: "char \<Rightarrow> bool" where
  "ascii_whitespace c \<longleftrightarrow> c \<in> set [CHR 0x09, CHR 0x0A, CHR 0x0C, CHR 0x0D, CHR 0x20]"

definition strip_ascii_whitespace :: "string \<Rightarrow> string" where
  "strip_ascii_whitespace label =
     rev (dropWhile ascii_whitespace (rev (dropWhile ascii_whitespace label)))"

definition is_utf8_label :: "string \<Rightarrow> bool" where
  "is_utf8_label label \<longleftrightarrow>
     map ascii_lower (strip_ascii_whitespace label) \<in>
       set [''unicode-1-1-utf-8'', ''unicode11utf8'', ''unicode20utf8'', ''utf-8'', ''utf8'',
            ''x-unicode20utf8'']"

definition runtime_env ::
  "(Buffer \<Rightarrow> nat \<Rightarrow> error + string option) \<Rightarrow> (string \<Rightarrow> Buffer \<Rightarrow> error + Text) \<Rightarrow> TextEnv" where
  "runtime_env detect other =
     \<lparr> detectEncodingFromBuffer = detect,
       textDecoder_decode =
         (\<lambda>label bytes.
            if is_utf8_label label then Inr (strip_bom (utf8_decode bytes))
            else other label bytes),
       buffer_toString = utf8_decode \<rparr>"

text \<open>
  The UTF-8 encoding of a text: what a blob that holds the text as UTF-8 contains. A
  scalar value is a code point that is not a surrogate.
\<close>

definition scalar_value :: "nat \<Rightarrow> bool" where
  "scalar_value cp \<longleftrightarrow> cp < 0x110000 \<and> \<not> (0xD800 \<le> cp \<and> cp \<le> 0xDFFF)"

definition utf8_encode_code_point :: "nat \<Rightarrow> Buffer" where
  "utf8_encode_code_point cp =
     (if cp < 0x80 then [cp]
      else if cp < 0x800 then [0xC0 + cp div 64, 0x80 + cp mod 64]
      else if cp < 0x10000 then
        [0xE0 + cp div 4096, 0x80 + (cp div 64) mod 64, 0x80 + cp mod 64]
      else
        [0xF0 + cp div 262144, 0x80 + (cp div 4096) mod 64, 0x80 + (cp div 64) mod 64,
         0x80 + cp mod 64])"

definition utf8_encode :: "Text \<Rightarrow> Buffer" where
  "utf8_encode t = concat (map utf8_encode_code_point t)"

section \<open>An in-memory storage account\<close>

text \<open>
  Modelled from the spec: the storage library and the service behind it are not among
  the sources. This section gives the library calls a meaning on a storage account held
  in memory, following the spec's words: a listing with a delimiter surfaces nested
  blobs only as directory prefixes one level deep; \<open>deleteIfExists\<close> reports
  whether a delete occurred and
  \<open>createIfNotExists\<close> whether a container was created; \<open>getProperties\<close>
  fails with a not-found condition for a blob that does not exist. The account is a list
  of named containers, each a list of named blobs, in listing order; the local file
  system is a list of named files.
\<close>

record MemBlob =
  blob_bytes :: Buffer
  blob_properties :: SdkBlobProperties

record MemWorld =
  mem_containers :: "(string \<times> (string \<times> MemBlob) list) list"
  mem_files :: "(string \<times> Buffer) list"

definition starts_with :: "string \<Rightarrow> string \<Rightarrow> bool" where
  "starts_with p s = (take (length p) s = p)"

text \<open>The position of the first occurrence of the delimiter in a name, if any.\<close>

fun find_delimiter :: "string \<Rightarrow> string \<Rightarrow> nat option" where
  "find_delimiter d [] = (if d = [] then Some 0 else None)"
| "find_delimiter d (c # cs) =
     (if starts_with d (c # cs) then Some 0 else map_option Suc (find_delimiter d cs))"

datatype Entry = EPrefix BlobPrefix | EItem BlobItem

fun entry_name :: "Entry \<Rightarrow> string" where
  "entry_name (EPrefix p) = prefix_name p"
| "entry_name (EItem b) = item_name b"

text \<open>
  The entry a blob contributes to a listing under \<open>prefix\<close>: nothing when its name
  does not start with the prefix; the blob itself when the rest of its name has no
  delimiter; otherwise the directory prefix that ends with the first delimiter after
  \<open>prefix\<close>.
\<close>

definition blob_entry :: "string \<Rightarrow> string \<Rightarrow> string \<times> MemBlob \<Rightarrow> Entry option" where
  "blob_entry delimiter prefix nb =
     (if \<not> starts_with prefix (fst nb) then None
      else
        (let rest = drop (length prefix) (fst nb) in
         case find_delimiter delimiter rest of
           None \<Rightarrow>
             Some (EItem \<lparr> item_name = fst nb, item_properties = blob_properties (snd nb) \<rparr>)
         | Some i \<Rightarrow>
             Some (EPrefix \<lparr> prefix_name = prefix @ take (i + length delimiter) rest \<rparr>)))"

text \<open>The entries of a listing, each directory prefix once, at its first occurrence.\<close>

fun add_entry :: "Entry list \<Rightarrow> Entry option \<Rightarrow> Entry list" where
  "add_entry es None = es"
| "add_entry es (Some (EItem b)) = es @ [EItem b]"
| "add_entry es (Some (EPrefix p)) = (if EPrefix p \<in> set es then es else es @ [EPrefix p])"

definition hierarchy_entries ::
  "string \<Rightarrow> string \<Rightarrow> (string \<times> MemBlob) list \<Rightarrow> Entry list" where
  "hierarchy_entries delimiter prefix blobs =
     foldl add_entry [] (map (blob_entry delimiter prefix) blobs)"

fun entry_prefixes :: "Entry list \<Rightarrow> BlobPrefix list" where
  "entry_prefixes [] = []"
| "entry_prefixes (EPrefix p # es) = p # entry_prefixes es"
| "entry_prefixes (EItem b # es) = entry_prefixes es"

fun entry_items :: "Entry list \<Rightarrow> BlobItem list" where
  "entry_items [] = []"
| "entry_items (EPrefix p # es) = entry_items es"
| "entry_items (EItem b # es) = b # entry_items es"

text \<open>
  Pages of at most \<open>Suc k\<close> entries; an empty listing is one empty page. The token
  of a page is the name of the first entry of the page after it.
\<close>

definition mem_page :: "Entry list \<Rightarrow> Entry list \<Rightarrow> Page" where
  "mem_page es later =
     \<lparr> segment = \<lparr> blobPrefixes = entry_prefixes es, blobItems = entry_items es \<rparr>,
       page_continuationToken =
         (case later of [] \<Rightarrow> None | e # _ \<Rightarrow> Some (entry_name e)) \<rparr>"

function mem_paginate :: "nat \<Rightarrow> Entry list \<Rightarrow> Page list" where
  "mem_paginate k es =
     (if length es \<le> Suc k then [mem_page es []]
      else mem_page (take (Suc k) es) (drop (Suc k) es) # mem_paginate k (drop (Suc k) es))"
  by pat_completeness auto
termination
  by (relation "measure (\<lambda>(k, es). length es)") auto

declare mem_paginate.simps [simp del]

definition page_size :: "int option \<Rightarrow> nat" where
  "page_size n = (case n of None \<Rightarrow> 4999 | Some m \<Rightarrow> if m \<le> 0 then 4999 else nat m - 1)"

definition resume_at :: "Token option \<Rightarrow> Entry list \<Rightarrow> Entry list" where
  "resume_at token es =
     (case token of None \<Rightarrow> es | Some t \<Rightarrow> dropWhile (\<lambda>e. entry_name e \<noteq> t) es)"

text \<open>
  The library's \<open>listBlobsByHierarchy\<close> takes the delimiter as a string. Handed
  \<open>null\<close> it cannot make the request and the iteration fails before it yields a
  page; handed the empty string it raises a \<open>RangeError\<close>.
\<close>

definition mem_listBlobsByHierarchy ::
  "ContainerClient \<Rightarrow> string option \<Rightarrow> string option \<Rightarrow> PageSettings \<Rightarrow> MemWorld
    \<Rightarrow> error + Page list" where
  "mem_listBlobsByHierarchy client delimiter prefix settings w =
     (case delimiter of
        None \<Rightarrow> Inl MalformedRequest
      | Some d \<Rightarrow>
          if d = [] then Inl RangeError
          else
            (case map_of (mem_containers w) (containerName client) of
               None \<Rightarrow> Inl NotFound
             | Some blobs \<Rightarrow>
                 Inr (mem_paginate (page_size (maxPageSize settings))
                        (resume_at (settings_continuationToken settings)
                           (hierarchy_entries d (case prefix of None \<Rightarrow> [] | Some p \<Rightarrow> p)
                              blobs)))))"

definition mem_find_blob :: "BlockBlobClient \<Rightarrow> MemWorld \<Rightarrow> error + MemBlob" where
  "mem_find_blob client w =
     (case map_of (mem_containers w) (containerName (blobContainer client)) of
        None \<Rightarrow> Inl NotFound
      | Some blobs \<Rightarrow>
          (case map_of blobs (blobName client) of
             None \<Rightarrow> Inl NotFound
           | Some b \<Rightarrow> Inr b))"

definition mem_getProperties ::
  "BlockBlobClient \<Rightarrow> StorageRequestOptions option \<Rightarrow> MemWorld \<Rightarrow> error + SdkBlobProperties" where
  "mem_getProperties client options w = map_sum id blob_properties (mem_find_blob client w)"

definition mem_downloadToBuffer ::
  "BlockBlobClient \<Rightarrow> nat \<Rightarrow> nat option \<Rightarrow> StorageRequestOptions option \<Rightarrow> MemWorld
    \<Rightarrow> error + Buffer" where
  "mem_downloadToBuffer client offset count options w =
     map_sum id
       (\<lambda>b. case count of
               None \<Rightarrow> drop offset (blob_bytes b)
             | Some n \<Rightarrow> take n (drop offset (blob_bytes b)))
       (mem_find_blob client w)"

definition alist_put :: "'k \<Rightarrow> 'v \<Rightarrow> ('k \<times> 'v) list \<Rightarrow> ('k \<times> 'v) list" where
  "alist_put k v kvs =
     (if k \<in> fst ` set kvs then map (\<lambda>kv. if fst kv = k then (k, v) else kv) kvs
      else kvs @ [(k, v)])"

definition alist_remove :: "'k \<Rightarrow> ('k \<times> 'v) list \<Rightarrow> ('k \<times> 'v) list" where
  "alist_remove k kvs = filter (\<lambda>kv. fst kv \<noteq> k) kvs"

definition mem_downloadToFile ::
  "BlockBlobClient \<Rightarrow> string \<Rightarrow> nat option \<Rightarrow> nat option \<Rightarrow> StorageRequestOptions option
    \<Rightarrow> MemWorld \<Rightarrow> (error + unit) \<times> MemWorld" where
  "mem_downloadToFile client path offset count options w =
     (case mem_downloadToBuffer client (case offset of None \<Rightarrow> 0 | Some n \<Rightarrow> n) count options w of
        Inl e \<Rightarrow> (Inl e, w)
      | Inr bytes \<Rightarrow> (Inr (), w\<lparr> mem_files := alist_put path bytes (mem_files w) \<rparr>))"

definition mem_deleteIfExists ::
  "BlockBlobClient \<Rightarrow> StorageRequestOptions option \<Rightarrow> MemWorld \<Rightarrow> (error + bool) \<times> MemWorld" where
  "mem_deleteIfExists client options w =
     (case map_of (mem_containers w) (containerName (blobContainer client)) of
        None \<Rightarrow> (Inl NotFound, w)
      | Some blobs \<Rightarrow>
          (case map_of blobs (blobName client) of
             None \<Rightarrow> (Inr False, w)
           | Some b \<Rightarrow>
               (Inr True,
                w\<lparr> mem_containers :=
                     alist_put (containerName (blobContainer client))
                       (alist_remove (blobName client) blobs) (mem_containers w) \<rparr>)))"

definition mem_listContainers ::
  "BlobServiceClient \<Rightarrow> StorageRequestOptions \<Rightarrow> Token option \<Rightarrow> MemWorld
    \<Rightarrow> error + ContainerPage list" where
  "mem_listContainers service options token w =
     Inr [\<lparr> containerItems =
              map (\<lambda>c. \<lparr> container_name = fst c, container_properties = [] \<rparr>)
                (filter
                   (\<lambda>c. starts_with (case map_of options ''prefix'' of None \<Rightarrow> [] | Some p \<Rightarrow> p)
                          (fst c))
                   (case token of
                      None \<Rightarrow> mem_containers w
                    | Some t \<Rightarrow> dropWhile (\<lambda>c. fst c \<noteq> t) (mem_containers w))) \<rparr>]"

definition mem_containerGetProperties ::
  "ContainerClient \<Rightarrow> StorageRequestOptions option \<Rightarrow> MemWorld \<Rightarrow> error + ContainerProperties" where
  "mem_containerGetProperties client options w =
     (case map_of (mem_containers w) (containerName client) of
        None \<Rightarrow> Inl NotFound
      | Some blobs \<Rightarrow> Inr [])"

definition mem_deleteContainer ::
  "BlobServiceClient \<Rightarrow> string \<Rightarrow> StorageRequestOptions option \<Rightarrow> MemWorld
    \<Rightarrow> (error + unit) \<times> MemWorld" where
  "mem_deleteContainer service container options w =
     (case map_of (mem_containers w) container of
        None \<Rightarrow> (Inl NotFound, w)
      | Some blobs \<Rightarrow> (Inr (), w\<lparr> mem_containers := alist_remove container (mem_containers w) \<rparr>))"

definition mem_createContainer ::
  "BlobServiceClient \<Rightarrow> string \<Rightarrow> MemWorld \<Rightarrow> (error + unit) \<times> MemWorld" where
  "mem_createContainer service container w =
     (case map_of (mem_containers w) container of
        None \<Rightarrow> (Inr (), w\<lparr> mem_containers := mem_containers w @ [(container, [])] \<rparr>)
      | Some blobs \<Rightarrow> (Inl Conflict, w))"

definition mem_createIfNotExists ::
  "ContainerClient \<Rightarrow> StorageRequestOptions option \<Rightarrow> MemWorld \<Rightarrow> (error + bool) \<times> MemWorld" where
  "mem_createIfNotExists client options w =
     (case map_of (mem_containers w) (containerName client) of
        None \<Rightarrow>
          (Inr True, w\<lparr> mem_containers := mem_containers w @ [(containerName client, [])] \<rparr>)
      | Some blobs \<Rightarrow> (Inr False, w))"

text \<open>
  A permission string is a sequence of permission letters; another character is out of
  range. The signed URL is the resource's URL with the permissions as its query.
\<close>

definition mem_parse_permissions :: "string \<Rightarrow> string \<Rightarrow> error + string" where
  "mem_parse_permissions letters permissions =
     (if set permissions \<subseteq> set letters then Inr (filter (\<lambda>c. c \<in> set permissions) letters)
      else Inl RangeError)"

definition mem_containerGenerateSasUrl ::
  "ContainerClient \<Rightarrow> string \<Rightarrow> MemWorld \<Rightarrow> error + string" where
  "mem_containerGenerateSasUrl client permissions w =
     Inr (serviceUrl (containerService client) @ ''/'' @ containerName client
            @ ''?sp='' @ permissions)"

definition mem_blobGenerateSasUrl ::
  "BlockBlobClient \<Rightarrow> string \<Rightarrow> MemWorld \<Rightarrow> error + string" where
  "mem_blobGenerateSasUrl client permissions w =
     Inr (serviceUrl (containerService (blobContainer client)) @ ''/''
            @ containerName (blobContainer client) @ ''/'' @ blobName client
            @ ''?sp='' @ permissions)"

definition mem_uploadFile ::
  "BlockBlobClient \<Rightarrow> string \<Rightarrow> MemWorld \<Rightarrow> (error + StorageBlobResponse) \<times> MemWorld" where
  "mem_uploadFile client file w =
     (case map_of (mem_files w) file of
        None \<Rightarrow> (Inl NotFound, w)
      | Some bytes \<Rightarrow>
          (case map_of (mem_containers w) (containerName (blobContainer client)) of
             None \<Rightarrow> (Inl NotFound, w)
           | Some blobs \<Rightarrow>
               (Inr [],
                w\<lparr> mem_containers :=
                     alist_put (containerName (blobContainer client))
                       (alist_put (blobName client)
                          \<lparr> blob_bytes = bytes,
                            blob_properties =
                              \<lparr> sdk_contentLength = Some (int (length bytes)),
                                sdk_contentType = None,
                                sdk_createdOn = None,
                                sdk_lastModified = 0 \<rparr> \<rparr>
                          blobs)
                       (mem_containers w) \<rparr>)))"

definition mem_sdk :: "MemWorld Sdk" where
  "mem_sdk =
     \<lparr> sdk_listBlobsByHierarchy = mem_listBlobsByHierarchy,
       sdk_getProperties = mem_getProperties,
       sdk_downloadToBuffer = mem_downloadToBuffer,
       sdk_downloadToFile = mem_downloadToFile,
       sdk_deleteIfExists = mem_deleteIfExists,
       sdk_listContainers = mem_listContainers,
       sdk_containerGetProperties = mem_containerGetProperties,
       sdk_deleteContainer = mem_deleteContainer,
       sdk_createContainer = mem_createContainer,
       sdk_createIfNotExists = mem_createIfNotExists,
       sdk_BlobSASPermissions_parse = mem_parse_permissions ''racwdxyltmei'',
       sdk_ContainerSASPermissions_parse = mem_parse_permissions ''racwdxyltmeif'',
       sdk_blobGenerateSasUrl = mem_blobGenerateSasUrl,
       sdk_containerGenerateSasUrl = mem_containerGenerateSasUrl,
       sdk_uploadFile = mem_uploadFile \<rparr>"

section \<open>Vocabulary of the statements\<close>

text \<open>
  What one page contributes to a listing, in the spec's words: its directory-prefix
  descriptors followed by its file descriptors.
\<close>

definition page_descriptors :: "string \<Rightarrow> Page \<Rightarrow> BlobDescriptor list" where
  "page_descriptors container page =
     map (prefix_descriptor container) (blobPrefixes (segment page))
       @ map (item_descriptor container) (blobItems (segment page))"

text \<open>
  A proxy and a storage account to evaluate the operations on: the container
  \<open>grp-1\<close> with two blobs directly under \<open>1001/$TaskOutput/\<close> and two in a
  subfolder. The first blob holds the UTF-8 encoding of a text of three code points, of
  one, two and three bytes.
\<close>

definition demo_proxy :: BlobStorageClientProxy where
  "demo_proxy =
     new_BlobStorageClientProxy \<lparr> accountName = ''acct'', accountKey = ''k'' \<rparr>
       ''blob.core.windows.net''"

definition demo_blob :: "nat list \<Rightarrow> string option \<Rightarrow> Date \<Rightarrow> Date \<Rightarrow> MemBlob" where
  "demo_blob bytes type created modified =
     \<lparr> blob_bytes = bytes,
       blob_properties =
         \<lparr> sdk_contentLength = Some (int (length bytes)),
           sdk_contentType = type,
           sdk_createdOn = Some created,
           sdk_lastModified = modified \<rparr> \<rparr>"

definition demo_world :: MemWorld where
  "demo_world =
     \<lparr> mem_containers =
         [(''grp-1'',
           [(''1001/$TaskOutput/a.txt'',
             demo_blob [104, 195, 169, 226, 130, 172] (Some ''text/plain'') 5 7),
            (''1001/$TaskOutput/sub/b.txt'', demo_blob [104] None 6 8),
            (''1001/$TaskOutput/sub/c.txt'', demo_blob [] None 6 9),
            (''1001/$TaskOutput/z.txt'', demo_blob [] None 6 9)])],
       mem_files = [] \<rparr>"

definition demo_options :: ListBlobOptions where
  "demo_options = \<lparr> folder = Some ''1001/$TaskOutput/'', recursive = Some False, limit = None \<rparr>"

text \<open>
  The contract of the library's \<open>deleteIfExists\<close> and \<open>createIfNotExists\<close>, in the
  spec's words (``whether a delete actually occurred'', ``whether creation occurred'',
  a not-found or already-exists condition being a normal return value instead of an
  error), relative to a reading \<open>present\<close> of which blobs, and \<open>exists\<close> of which
  containers, a state of the world holds, and to a reading \<open>served\<close> of the states in
  which the library meets no provider failure for a client. In such a state the call on a
  blob that is present returns true and leaves it absent, the call on a blob that is
  absent returns false and changes nothing; the call on a container that is absent
  returns true and leaves it there, the call on one that exists returns false and changes
  nothing. The state a successful call leaves is served as well.
\<close>

definition deletes_if_exists ::
  "'s Sdk \<Rightarrow> (BlockBlobClient \<Rightarrow> 's \<Rightarrow> bool) \<Rightarrow> (BlockBlobClient \<Rightarrow> 's \<Rightarrow> bool) \<Rightarrow> bool" where
  "deletes_if_exists sdk served present \<longleftrightarrow>
     (\<forall>client options w.
        served client w \<longrightarrow>
          (if present client w
           then \<exists>w'. sdk_deleteIfExists sdk client options w = (Inr True, w')
                  \<and> served client w' \<and> \<not> present client w'
           else sdk_deleteIfExists sdk client options w = (Inr False, w)))"

definition creates_if_not_exists ::
  "'s Sdk \<Rightarrow> (ContainerClient \<Rightarrow> 's \<Rightarrow> bool) \<Rightarrow> (ContainerClient \<Rightarrow> 's \<Rightarrow> bool) \<Rightarrow> bool" where
  "creates_if_not_exists sdk served exists \<longleftrightarrow>
     (\<forall>client options w.
        served client w \<longrightarrow>
          (if exists client w
           then sdk_createIfNotExists sdk client options w = (Inr False, w)
           else \<exists>w'. sdk_createIfNotExists sdk client options w = (Inr True, w')
                  \<and> served client w' \<and> exists client w'))"

text \<open>
  On the in-memory account a blob is present when its container holds its name, a
  container exists when the account holds its name, a delete is served when the blob's
  container exists and a create is always served.
\<close>

definition mem_present :: "BlockBlobClient \<Rightarrow> MemWorld \<Rightarrow> bool" where
  "mem_present client w =
     (case map_of (mem_containers w) (containerName (blobContainer client)) of
        None \<Rightarrow> False
      | Some blobs \<Rightarrow> blobName client \<in> fst ` set blobs)"

definition mem_exists :: "ContainerClient \<Rightarrow> MemWorld \<Rightarrow> bool" where
  "mem_exists client w = (containerName client \<in> fst ` set (mem_containers w))"

definition mem_delete_served :: "BlockBlobClient \<Rightarrow> MemWorld \<Rightarrow> bool" where
  "mem_delete_served client w = mem_exists (blobContainer client) w"

definition mem_create_served :: "ContainerClient \<Rightarrow> MemWorld \<Rightarrow> bool" where
  "mem_create_served client w = True"

text \<open>
  A name is one level under a folder when it starts with the folder and the rest of it
  has no delimiter; it is a directory one level under the folder when the rest of it is
  one segment without a delimiter followed by the delimiter.
\<close>

definition folder_prefix :: "string option \<Rightarrow> string" where
  "folder_prefix f = (case f of None \<Rightarrow> [] | Some p \<Rightarrow> p)"

definition one_level :: "string \<Rightarrow> string \<Rightarrow> bool" where
  "one_level p n \<longleftrightarrow> starts_with p n \<and> CHR ''/'' \<notin> set (drop (length p) n)"

definition directory_one_level :: "string \<Rightarrow> string \<Rightarrow> bool" where
  "directory_one_level p n \<longleftrightarrow>
     starts_with p n \<and> drop (length p) n \<noteq> []
     \<and> last (drop (length p) n) = CHR ''/''
     \<and> CHR ''/'' \<notin> set (butlast (drop (length p) n))"

text \<open>
  Modelled from the spec: \<open>EncodingUtils.detectEncodingFromBuffer\<close> is in a module of
  the repository that is not among the sources; the spec says it detects the text
  encoding from the byte content. This detector recognises UTF-8 by its byte order mark
  (the bytes EF BB BF) among the bytes read, and nothing else.
\<close>

definition bom_detector :: "Buffer \<Rightarrow> nat \<Rightarrow> error + string option" where
  "bom_detector buffer bytesRead =
     (if take 3 (take bytesRead buffer) = [0xEF, 0xBB, 0xBF] then Inr (Some ''utf8'')
      else Inr None)"

text \<open>
  An account with one blob, which holds the UTF-8 encoding of a text of two code points,
  the first of them U+FEFF.
\<close>

definition bom_world :: MemWorld where
  "bom_world =
     \<lparr> mem_containers = [(''grp-1'', [(''bom.txt'', demo_blob [0xEF, 0xBB, 0xBF, 104] None 1 1)])],
       mem_files = [] \<rparr>"

section \<open>Properties\<close>

subsection \<open>getUrl\<close>

lemma getUrl_container:
  "getUrl this container None sasToken =
     ''https://'' @ accountName (credential this) @ ''.'' @ blobEndpoint this
       @ ''/'' @ container @ ''/'' @ (case sasToken of None \<Rightarrow> [] | Some t \<Rightarrow> t)"
  by (simp add: getUrl_def js_truthy_def js_join_element_def split: option.splits)

lemma getUrl_blob:
  assumes "blob \<noteq> []"
  shows "getUrl this container (Some blob) (Some sasToken) =
     ''https://'' @ accountName (credential this) @ ''.'' @ blobEndpoint this
       @ ''/'' @ container @ ''//'' @ blob @ sasToken"
  using assms
  by (simp add: getUrl_def js_truthy_def js_join_element_def js_template_def)

text \<open>
  C2. \<open>getUrl(container, blob, sasToken)\<close> is claimed to be exactly
  \<open>https://<account>.<endpoint>/<container>/<blob><sasToken>\<close>. The third element of
  the joined array already starts with a slash and \<open>join\<close> adds the separator, so the
  code puts two slashes between the container and the blob: for the account
  \<open>acct\<close>, the endpoint \<open>blob.core.windows.net\<close>, the container \<open>grp-1\<close>, the
  blob \<open>a.txt\<close> and the token \<open>?sv=1\<close> it returns
  \<open>https://acct.blob.core.windows.net/grp-1//a.txt?sv=1\<close>, which is not the claimed
  \<open>https://acct.blob.core.windows.net/grp-1/a.txt?sv=1\<close>.
\<close>

theorem getUrl_blob_double_slash:
  "getUrl (new_BlobStorageClientProxy
             \<lparr> accountName = ''acct'', accountKey = ''k'' \<rparr> ''blob.core.windows.net'')
          ''grp-1'' (Some ''a.txt'') (Some ''?sv=1'')
     = ''https://acct.blob.core.windows.net/grp-1//a.txt?sv=1''
   \<and> getUrl (new_BlobStorageClientProxy
             \<lparr> accountName = ''acct'', accountKey = ''k'' \<rparr> ''blob.core.windows.net'')
          ''grp-1'' (Some ''a.txt'') (Some ''?sv=1'')
     \<noteq> ''https://acct.blob.core.windows.net/grp-1/a.txt?sv=1''"
  by (simp add: getUrl_def new_BlobStorageClientProxy_def js_truthy_def
      js_join_element_def js_template_def)

subsection \<open>listBlobs: the loops\<close>

lemma push_prefixes_append:
  "push_prefixes container ps blobs = blobs @ map (prefix_descriptor container) ps"
  by (induction ps arbitrary: blobs) simp_all

lemma push_items_append:
  "push_items container bs blobs = blobs @ map (item_descriptor container) bs"
  by (induction bs arbitrary: blobs) simp_all

lemma push_pages_append:
  "push_pages container pages blobs = blobs @ concat (map (page_descriptors container) pages)"
  by (induction pages arbitrary: blobs)
     (simp_all add: push_prefixes_append push_items_append page_descriptors_def)

text \<open>
  The whole of \<open>listBlobs\<close>: one library call, whose pages are flattened; the token
  handed in is the token handed back.
\<close>

lemma listBlobs_unfold:
  "listBlobs sdk this container options token st =
     (case sdk_listBlobsByHierarchy sdk (getContainerClient this container)
             (if recursive options = Some True then None else Some ''/'') (folder options)
             \<lparr> settings_continuationToken = token, maxPageSize = limit options \<rparr> st of
        Inl e \<Rightarrow> Inl e
      | Inr pages \<Rightarrow>
          Inr \<lparr> data = concat (map (page_descriptors container) pages),
                continuationToken = token \<rparr>)"
  by (simp add: listBlobs_def push_pages_append split: sum.splits)

lemma listBlobs_InrD:
  assumes "listBlobs sdk this container options token st = Inr r"
  obtains pages where
    "sdk_listBlobsByHierarchy sdk (getContainerClient this container)
       (if recursive options = Some True then None else Some ''/'') (folder options)
       \<lparr> settings_continuationToken = token, maxPageSize = limit options \<rparr> st = Inr pages"
    and "data r = concat (map (page_descriptors container) pages)"
    and "continuationToken r = token"
  using assms by (auto simp: listBlobs_unfold split: sum.splits)

lemma page_descriptors_cases:
  assumes "d \<in> set (page_descriptors container page)"
  shows "(\<exists>p \<in> set (blobPrefixes (segment page)). d = prefix_descriptor container p)
       \<or> (\<exists>b \<in> set (blobItems (segment page)). d = item_descriptor container b)"
  using assms by (auto simp: page_descriptors_def)

lemma listBlobs_descriptor_cases:
  assumes "listBlobs sdk this container options token st = Inr r" and "d \<in> set (data r)"
  shows "(\<exists>p. d = prefix_descriptor container p) \<or> (\<exists>b. d = item_descriptor container b)"
proof -
  from assms(1) obtain pages where "data r = concat (map (page_descriptors container) pages)"
    by (rule listBlobs_InrD)
  with assms(2) obtain page where "d \<in> set (page_descriptors container page)"
    by auto
  then show ?thesis
    using page_descriptors_cases by blast
qed

subsection \<open>Evaluating the in-memory account\<close>

lemmas demo_defs =
  demo_proxy_def demo_world_def demo_options_def demo_blob_def new_BlobStorageClientProxy_def
  getContainerClient_def getBlobClient_def mem_sdk_def

lemmas mem_listing_defs =
  mem_listBlobsByHierarchy_def hierarchy_entries_def blob_entry_def starts_with_def
  resume_at_def page_size_def mem_page_def mem_paginate.simps

lemma demo_listing:
  "listBlobs mem_sdk demo_proxy ''grp-1'' demo_options None demo_world =
     Inr \<lparr> data =
            [\<lparr> name = ''1001/$TaskOutput/sub/'', url = ''grp-1/1001/$TaskOutput/sub/'',
               isDirectory = True, properties = None \<rparr>,
             \<lparr> name = ''1001/$TaskOutput/a.txt'', url = ''grp-1/1001/$TaskOutput/a.txt'',
               isDirectory = False,
               properties = Some \<lparr> contentLength = Some 6, contentType = Some ''text/plain'',
                                   creationTime = None, lastModified = 7 \<rparr> \<rparr>,
             \<lparr> name = ''1001/$TaskOutput/z.txt'', url = ''grp-1/1001/$TaskOutput/z.txt'',
               isDirectory = False,
               properties = Some \<lparr> contentLength = Some 0, contentType = None,
                                   creationTime = None, lastModified = 9 \<rparr> \<rparr>],
           continuationToken = None \<rparr>"
  by code_simp

text \<open>
  C1. \<open>listBlobs\<close> is claimed to return, with the descriptors of every page, the token
  for the next page of the enumeration, undefined when the enumeration is exhausted. The
  loop runs the enumeration to its end and the method returns the token it was given.
  Asked to resume at the token \<open>1001/$TaskOutput/z.txt\<close>, the in-memory account
  yields one last page, whose own token is absent; the proxy returns that page's
  descriptor and, as continuation, the token \<open>1001/$TaskOutput/z.txt\<close> again.
\<close>

theorem listBlobs_returns_given_token:
  "listBlobs mem_sdk demo_proxy ''grp-1'' demo_options (Some ''1001/$TaskOutput/z.txt'')
       demo_world =
     Inr \<lparr> data =
            [\<lparr> name = ''1001/$TaskOutput/z.txt'', url = ''grp-1/1001/$TaskOutput/z.txt'',
               isDirectory = False,
               properties = Some \<lparr> contentLength = Some 0, contentType = None,
                                   creationTime = None, lastModified = 9 \<rparr> \<rparr>],
           continuationToken = Some ''1001/$TaskOutput/z.txt'' \<rparr>
   \<and> map_sum id (map page_continuationToken)
       (sdk_listBlobsByHierarchy mem_sdk (getContainerClient demo_proxy ''grp-1'')
          (Some ''/'') (folder demo_options)
          \<lparr> settings_continuationToken = Some ''1001/$TaskOutput/z.txt'',
            maxPageSize = limit demo_options \<rparr> demo_world) = Inr [None]"
  by code_simp


subsection \<open>getBlobProperties\<close>

lemma getBlobProperties_unfold:
  "getBlobProperties sdk this container blob blobPrefix options st =
     (case sdk_getProperties sdk (getBlobClient this container blob) options st of
        Inl e \<Rightarrow> Inl e
      | Inr props \<Rightarrow>
          Inr \<lparr> data =
                  \<lparr> name = blob,
                    url = container @ ''/'' @ (case blobPrefix of None \<Rightarrow> [] | Some p \<Rightarrow> p) @ blob,
                    isDirectory = False,
                    properties = Some
                      \<lparr> contentLength = sdk_contentLength props,
                        contentType = sdk_contentType props,
                        creationTime = None,
                        lastModified = sdk_lastModified props \<rparr> \<rparr>,
                continuationToken = None \<rparr>)"
  by (simp add: getBlobProperties_def split: sum.splits)

text \<open>
  C5. \<open>getBlobProperties\<close> fails exactly when the library's \<open>getProperties\<close> on
  the blob's client fails, and with the same error (so a not-found condition reaches the
  caller as it is); when the library answers, the result is the descriptor of that one
  blob, built from the answer.
\<close>

theorem getBlobProperties_pass_through:
  "(\<forall>e. getBlobProperties sdk this container blob blobPrefix options st = Inl e
        \<longleftrightarrow> sdk_getProperties sdk (getBlobClient this container blob) options st = Inl e)
   \<and> (\<forall>props. sdk_getProperties sdk (getBlobClient this container blob) options st = Inr props
        \<longrightarrow> getBlobProperties sdk this container blob blobPrefix options st =
              Inr \<lparr> data =
                      \<lparr> name = blob,
                        url = container @ ''/''
                                @ (case blobPrefix of None \<Rightarrow> [] | Some p \<Rightarrow> p) @ blob,
                        isDirectory = False,
                        properties = Some
                          \<lparr> contentLength = sdk_contentLength props,
                            contentType = sdk_contentType props,
                            creationTime = None,
                            lastModified = sdk_lastModified props \<rparr> \<rparr>,
                    continuationToken = None \<rparr>)"
  by (simp add: getBlobProperties_unfold split: sum.splits)

theorem getBlobProperties_pass_through_witness:
  "getBlobProperties mem_sdk demo_proxy ''grp-1'' ''missing.txt'' None None demo_world
     = Inl NotFound
   \<and> getBlobProperties mem_sdk demo_proxy ''grp-1'' ''1001/$TaskOutput/a.txt'' None None
       demo_world
     = Inr \<lparr> data =
              \<lparr> name = ''1001/$TaskOutput/a.txt'', url = ''grp-1/1001/$TaskOutput/a.txt'',
                isDirectory = False,
                properties = Some \<lparr> contentLength = Some 6, contentType = Some ''text/plain'',
                                    creationTime = None, lastModified = 7 \<rparr> \<rparr>,
             continuationToken = None \<rparr>"
proof -
  have missing:
    "sdk_getProperties mem_sdk (getBlobClient demo_proxy ''grp-1'' ''missing.txt'') None
       demo_world = Inl NotFound"
    by (simp add: demo_defs mem_getProperties_def mem_find_blob_def)
  have present:
    "sdk_getProperties mem_sdk (getBlobClient demo_proxy ''grp-1'' ''1001/$TaskOutput/a.txt'')
       None demo_world =
     Inr \<lparr> sdk_contentLength = Some 6, sdk_contentType = Some ''text/plain'',
           sdk_createdOn = Some 5, sdk_lastModified = 7 \<rparr>"
    by (simp add: demo_defs mem_getProperties_def mem_find_blob_def)
  from missing present show ?thesis
    using getBlobProperties_pass_through
      [of mem_sdk demo_proxy "''grp-1''" "''missing.txt''" None None demo_world]
      getBlobProperties_pass_through
      [of mem_sdk demo_proxy "''grp-1''" "''1001/$TaskOutput/a.txt''" None None demo_world]
    by simp
qed

subsection \<open>The shape of a descriptor\<close>

lemma prefix_descriptor_shape:
  "isDirectory (prefix_descriptor container p) \<and> properties (prefix_descriptor container p) = None"
  by (simp add: prefix_descriptor_def)

lemma item_descriptor_shape:
  "\<not> isDirectory (item_descriptor container b)
   \<and> properties (item_descriptor container b) =
       Some \<lparr> contentLength = sdk_contentLength (item_properties b),
              contentType = sdk_contentType (item_properties b),
              creationTime = None,
              lastModified = sdk_lastModified (item_properties b) \<rparr>"
  by (simp add: item_descriptor_def)

text \<open>
  C7. In what \<open>listBlobs\<close> returns, a descriptor has no \<open>properties\<close> field exactly
  when it is a directory, so a directory never carries one and a file always carries the
  bag of content length, content type, creation time and last-modified time; the
  descriptor \<open>getBlobProperties\<close> returns is a file and carries the bag.
\<close>

theorem descriptor_properties_invariant:
  "(listBlobs sdk this container options token st = Inr r
      \<longrightarrow> (\<forall>d \<in> set (data r). isDirectory d \<longleftrightarrow> properties d = None))
   \<and> (getBlobProperties sdk this container blob blobPrefix ropts st = Inr r'
      \<longrightarrow> \<not> isDirectory (data r') \<and> properties (data r') \<noteq> None)"
proof (intro conjI impI ballI)
  fix d
  assume "listBlobs sdk this container options token st = Inr r" and "d \<in> set (data r)"
  then have "(\<exists>p. d = prefix_descriptor container p) \<or> (\<exists>b. d = item_descriptor container b)"
    by (rule listBlobs_descriptor_cases)
  then show "isDirectory d \<longleftrightarrow> properties d = None"
    using prefix_descriptor_shape item_descriptor_shape by auto
next
  assume "getBlobProperties sdk this container blob blobPrefix ropts st = Inr r'"
  then show "\<not> isDirectory (data r')"
    by (auto simp: getBlobProperties_unfold split: sum.splits)
next
  assume "getBlobProperties sdk this container blob blobPrefix ropts st = Inr r'"
  then show "properties (data r') \<noteq> None"
    by (auto simp: getBlobProperties_unfold split: sum.splits)
qed

theorem descriptor_properties_invariant_witness:
  "\<exists>r r'. listBlobs mem_sdk demo_proxy ''grp-1'' demo_options None demo_world = Inr r
     \<and> map isDirectory (data r) = [True, False, False]
     \<and> map (\<lambda>d. properties d = None) (data r) = [True, False, False]
     \<and> list_all (\<lambda>d. isDirectory d \<longleftrightarrow> properties d = None) (data r)
     \<and> getBlobProperties mem_sdk demo_proxy ''grp-1'' ''1001/$TaskOutput/a.txt'' None None
          demo_world = Inr r'
     \<and> \<not> isDirectory (data r') \<and> properties (data r') \<noteq> None"
proof -
  obtain r where r: "listBlobs mem_sdk demo_proxy ''grp-1'' demo_options None demo_world = Inr r"
    and shape: "map isDirectory (data r) = [True, False, False]"
      "map (\<lambda>d. properties d = None) (data r) = [True, False, False]"
    using demo_listing by simp
  obtain r' where r':
    "getBlobProperties mem_sdk demo_proxy ''grp-1'' ''1001/$TaskOutput/a.txt'' None None
       demo_world = Inr r'"
    by (simp add: getBlobProperties_def demo_defs mem_getProperties_def mem_find_blob_def)
  from descriptor_properties_invariant
    [of mem_sdk demo_proxy "''grp-1''" demo_options None demo_world r
        "''1001/$TaskOutput/a.txt''" None None r'] r r'
  have "(\<forall>d \<in> set (data r). isDirectory d \<longleftrightarrow> properties d = None)"
    and "\<not> isDirectory (data r')" and "properties (data r') \<noteq> None"
    by simp_all
  with r r' shape show ?thesis
    by (auto simp: list_all_iff)
qed

text \<open>
  C10. Every descriptor that carries properties, in a listing and in the answer of
  \<open>getBlobProperties\<close>, has no creation time, whatever creation time the library
  reported for the blob.
\<close>

theorem creationTime_never_populated:
  "(listBlobs sdk this container options token st = Inr r
      \<longrightarrow> (\<forall>d \<in> set (data r). \<forall>p. properties d = Some p \<longrightarrow> creationTime p = None))
   \<and> (getBlobProperties sdk this container blob blobPrefix ropts st = Inr r'
      \<longrightarrow> (\<exists>p. properties (data r') = Some p \<and> creationTime p = None))"
proof (intro conjI impI ballI allI)
  fix d p
  assume "listBlobs sdk this container options token st = Inr r" and "d \<in> set (data r)"
  then have "(\<exists>q. d = prefix_descriptor container q) \<or> (\<exists>b. d = item_descriptor container b)"
    by (rule listBlobs_descriptor_cases)
  moreover assume "properties d = Some p"
  ultimately show "creationTime p = None"
    using prefix_descriptor_shape item_descriptor_shape by auto
next
  assume "getBlobProperties sdk this container blob blobPrefix ropts st = Inr r'"
  then show "\<exists>p. properties (data r') = Some p \<and> creationTime p = None"
    by (auto simp: getBlobProperties_unfold split: sum.splits)
qed

theorem creationTime_never_populated_witness:
  "\<exists>r r'. listBlobs mem_sdk demo_proxy ''grp-1'' demo_options None demo_world = Inr r
     \<and> map (map_option creationTime \<circ> properties) (data r) = [None, Some None, Some None]
     \<and> sdk_getProperties mem_sdk
          (getBlobClient demo_proxy ''grp-1'' ''1001/$TaskOutput/a.txt'') None demo_world
        = Inr \<lparr> sdk_contentLength = Some 6, sdk_contentType = Some ''text/plain'',
                sdk_createdOn = Some 5, sdk_lastModified = 7 \<rparr>
     \<and> getBlobProperties mem_sdk demo_proxy ''grp-1'' ''1001/$TaskOutput/a.txt'' None None
          demo_world = Inr r'
     \<and> map_option creationTime (properties (data r')) = Some None"
proof -
  obtain r where r: "listBlobs mem_sdk demo_proxy ''grp-1'' demo_options None demo_world = Inr r"
    and shape: "map (\<lambda>d. properties d = None) (data r) = [True, False, False]"
    using demo_listing by simp
  have reported:
    "sdk_getProperties mem_sdk
       (getBlobClient demo_proxy ''grp-1'' ''1001/$TaskOutput/a.txt'') None demo_world
     = Inr \<lparr> sdk_contentLength = Some 6, sdk_contentType = Some ''text/plain'',
             sdk_createdOn = Some 5, sdk_lastModified = 7 \<rparr>"
    by (simp add: demo_defs mem_getProperties_def mem_find_blob_def)
  obtain r' where r':
    "getBlobProperties mem_sdk demo_proxy ''grp-1'' ''1001/$TaskOutput/a.txt'' None None
       demo_world = Inr r'"
    by (simp add: getBlobProperties_def demo_defs mem_getProperties_def mem_find_blob_def)
  from creationTime_never_populated
    [of mem_sdk demo_proxy "''grp-1''" demo_options None demo_world r
        "''1001/$TaskOutput/a.txt''" None None r'] r r'
  have all: "\<forall>d \<in> set (data r). \<forall>p. properties d = Some p \<longrightarrow> creationTime p = None"
    and one: "\<exists>p. properties (data r') = Some p \<and> creationTime p = None"
    by simp_all
  obtain d1 d2 d3 where ds: "data r = [d1, d2, d3]"
    using shape by (auto simp: map_eq_Cons_conv)
  with shape all have
    "map (map_option creationTime \<circ> properties) (data r) = [None, Some None, Some None]"
    by auto
  with r r' reported one show ?thesis
    by auto
qed

subsection \<open>generateSasUrl\<close>

text \<open>
  C9. With \<open>accessPolicy\<close> undefined, \<open>generateSasUrl\<close> fails with the
  \<open>TypeError\<close> of the property read, for every container and blob argument; the
  outcome is the same for every library and every state of the world, so no library
  call decides it. The method therefore returns a URL only when an access policy was
  supplied.
\<close>

theorem generateSasUrl_undefined_policy:
  "generateSasUrl sdk this container blob None st = Inl TypeError
   \<and> (generateSasUrl sdk this container blob accessPolicy st = Inr signed
        \<longrightarrow> (\<exists>policy. accessPolicy = Some policy))"
  by (cases accessPolicy) (simp_all add: generateSasUrl_def)

theorem generateSasUrl_undefined_policy_witness:
  "generateSasUrl mem_sdk demo_proxy ''grp-1'' (Some ''a.txt'') None demo_world = Inl TypeError
   \<and> generateSasUrl mem_sdk demo_proxy ''grp-1'' None None demo_world = Inl TypeError
   \<and> generateSasUrl mem_sdk demo_proxy ''grp-1'' (Some ''a.txt'')
       (Some \<lparr> AccessPolicy = \<lparr> Permissions = ''r'', Expiry = None \<rparr> \<rparr>) demo_world
     = Inr ''https://acct.blob.core.windows.net/grp-1/a.txt?sp=r''"
proof -
  have signed:
    "generateSasUrl mem_sdk demo_proxy ''grp-1'' (Some ''a.txt'')
       (Some \<lparr> AccessPolicy = \<lparr> Permissions = ''r'', Expiry = None \<rparr> \<rparr>) demo_world
     = Inr ''https://acct.blob.core.windows.net/grp-1/a.txt?sp=r''"
    by (simp add: generateSasUrl_def demo_defs js_truthy_def js_template_def
        mem_parse_permissions_def mem_blobGenerateSasUrl_def)
  with generateSasUrl_undefined_policy
         [of mem_sdk demo_proxy "''grp-1''" "Some ''a.txt''" demo_world
             "Some \<lparr> AccessPolicy = \<lparr> Permissions = ''r'', Expiry = None \<rparr> \<rparr>"
             "''https://acct.blob.core.windows.net/grp-1/a.txt?sp=r''"]
       generateSasUrl_undefined_policy [of mem_sdk demo_proxy "''grp-1''" None demo_world]
  show ?thesis by simp
qed


subsection \<open>The in-memory account keeps the library's contracts\<close>

lemma map_of_replace:
  "k \<in> fst ` set kvs \<Longrightarrow>
     map_of (map (\<lambda>kv. if fst kv = k then (k, v) else kv) kvs) k = Some v"
  by (induction kvs) auto

lemma map_of_alist_put: "map_of (alist_put k v kvs) k = Some v"
proof (cases "k \<in> fst ` set kvs")
  case True
  then show ?thesis by (simp add: alist_put_def map_of_replace)
next
  case False
  then have "map_of kvs k = None" by (simp add: map_of_eq_None_iff)
  with False show ?thesis by (simp add: alist_put_def map_add_def)
qed

lemma keys_alist_remove: "fst ` set (alist_remove k kvs) = fst ` set kvs - {k}"
  by (auto simp: alist_remove_def image_iff)

lemma map_of_Some_key: "map_of kvs k = Some v \<Longrightarrow> k \<in> fst ` set kvs"
  by (metis map_of_eq_None_iff option.distinct(1))

lemma map_of_None_iff_keys: "map_of kvs k = None \<longleftrightarrow> k \<notin> fst ` set kvs"
  by (simp add: map_of_eq_None_iff)

lemma keys_alist_put: "fst ` set (alist_put k v kvs) = insert k (fst ` set kvs)"
proof (cases "k \<in> fst ` set kvs")
  case True
  have "fst ` set (map (\<lambda>kv. if fst kv = k then (k, v) else kv) kvs) = fst ` set kvs"
    by (induction kvs) auto
  with True show ?thesis by (auto simp: alist_put_def)
next
  case False
  then show ?thesis by (simp add: alist_put_def)
qed

lemma mem_deletes_if_exists: "deletes_if_exists mem_sdk mem_delete_served mem_present"
  unfolding deletes_if_exists_def
proof (intro allI impI)
  fix client :: BlockBlobClient and options :: "StorageRequestOptions option" and w :: MemWorld
  let ?c = "containerName (blobContainer client)"
  assume "mem_delete_served client w"
  then have "map_of (mem_containers w) ?c \<noteq> None"
    by (simp add: mem_delete_served_def mem_exists_def map_of_None_iff_keys)
  then obtain blobs where blobs: "map_of (mem_containers w) ?c = Some blobs"
    by blast
  show "if mem_present client w
        then \<exists>w'. sdk_deleteIfExists mem_sdk client options w = (Inr True, w')
               \<and> mem_delete_served client w' \<and> \<not> mem_present client w'
        else sdk_deleteIfExists mem_sdk client options w = (Inr False, w)"
  proof (cases "map_of blobs (blobName client)")
    case None
    with blobs have "\<not> mem_present client w"
      by (simp add: mem_present_def map_of_None_iff_keys)
    moreover from None blobs
    have "sdk_deleteIfExists mem_sdk client options w = (Inr False, w)"
      by (simp add: mem_sdk_def mem_deleteIfExists_def)
    ultimately show ?thesis by simp
  next
    case (Some b)
    let ?w' = "w\<lparr> mem_containers :=
                   alist_put ?c (alist_remove (blobName client) blobs) (mem_containers w) \<rparr>"
    from Some blobs have "mem_present client w"
      by (simp add: mem_present_def map_of_Some_key)
    moreover from Some blobs
    have "sdk_deleteIfExists mem_sdk client options w = (Inr True, ?w')"
      by (simp add: mem_sdk_def mem_deleteIfExists_def)
    moreover have "mem_delete_served client ?w'"
      by (simp add: mem_delete_served_def mem_exists_def keys_alist_put)
    moreover have "\<not> mem_present client ?w'"
      by (simp add: mem_present_def map_of_alist_put keys_alist_remove)
    ultimately show ?thesis by auto
  qed
qed

lemma mem_creates_if_not_exists: "creates_if_not_exists mem_sdk mem_create_served mem_exists"
  unfolding creates_if_not_exists_def
proof (intro allI impI)
  fix client :: ContainerClient and options :: "StorageRequestOptions option" and w :: MemWorld
  show "if mem_exists client w
        then sdk_createIfNotExists mem_sdk client options w = (Inr False, w)
        else \<exists>w'. sdk_createIfNotExists mem_sdk client options w = (Inr True, w')
               \<and> mem_create_served client w' \<and> mem_exists client w'"
  proof (cases "map_of (mem_containers w) (containerName client)")
    case None
    then have "\<not> mem_exists client w"
      by (simp add: mem_exists_def map_of_None_iff_keys)
    moreover from None
    have "sdk_createIfNotExists mem_sdk client options w =
            (Inr True, w\<lparr> mem_containers := mem_containers w @ [(containerName client, [])] \<rparr>)"
      by (simp add: mem_sdk_def mem_createIfNotExists_def)
    moreover have
      "mem_exists client (w\<lparr> mem_containers := mem_containers w @ [(containerName client, [])] \<rparr>)"
      by (simp add: mem_exists_def)
    ultimately show ?thesis by (auto simp: mem_create_served_def)
  next
    case (Some blobs)
    then have "mem_exists client w"
      by (simp add: mem_exists_def map_of_Some_key)
    moreover from Some
    have "sdk_createIfNotExists mem_sdk client options w = (Inr False, w)"
      by (simp add: mem_sdk_def mem_createIfNotExists_def)
    ultimately show ?thesis by simp
  qed
qed

lemma entry_items_append: "entry_items (xs @ ys) = entry_items xs @ entry_items ys"
  by (induction xs rule: entry_items.induct) simp_all

lemma entry_prefixes_append: "entry_prefixes (xs @ ys) = entry_prefixes xs @ entry_prefixes ys"
  by (induction xs rule: entry_prefixes.induct) simp_all

lemma set_entry_items: "b \<in> set (entry_items es) \<longleftrightarrow> EItem b \<in> set es"
  by (induction es rule: entry_items.induct) auto

lemma set_entry_prefixes: "p \<in> set (entry_prefixes es) \<longleftrightarrow> EPrefix p \<in> set es"
  by (induction es rule: entry_prefixes.induct) auto

lemma paginate_items:
  "concat (map (\<lambda>page. blobItems (segment page)) (mem_paginate k es)) = entry_items es"
proof (induction k es rule: mem_paginate.induct)
  case (1 k es)
  show ?case
  proof (cases "length es \<le> Suc k")
    case True
    then show ?thesis by (subst mem_paginate.simps) (simp add: mem_page_def)
  next
    case False
    have "entry_items (take (Suc k) es) @ entry_items (drop (Suc k) es) = entry_items es"
      by (simp only: entry_items_append[symmetric] append_take_drop_id)
    with False "1.IH" show ?thesis
      by (subst mem_paginate.simps) (simp add: mem_page_def)
  qed
qed

lemma paginate_prefixes:
  "concat (map (\<lambda>page. blobPrefixes (segment page)) (mem_paginate k es)) = entry_prefixes es"
proof (induction k es rule: mem_paginate.induct)
  case (1 k es)
  show ?case
  proof (cases "length es \<le> Suc k")
    case True
    then show ?thesis by (subst mem_paginate.simps) (simp add: mem_page_def)
  next
    case False
    have "entry_prefixes (take (Suc k) es) @ entry_prefixes (drop (Suc k) es) = entry_prefixes es"
      by (simp only: entry_prefixes_append[symmetric] append_take_drop_id)
    with False "1.IH" show ?thesis
      by (subst mem_paginate.simps) (simp add: mem_page_def)
  qed
qed

lemma set_resume_at: "set (resume_at token es) \<subseteq> set es"
  by (auto simp: resume_at_def split: option.splits dest: set_dropWhileD)

lemma set_add_entry: "e \<in> set (add_entry acc x) \<Longrightarrow> e \<in> set acc \<or> x = Some e"
  by (cases "(acc, x)" rule: add_entry.cases) (auto split: if_splits)

lemma set_foldl_add_entry:
  "e \<in> set (foldl add_entry acc xs) \<Longrightarrow> e \<in> set acc \<or> Some e \<in> set xs"
proof (induction xs arbitrary: acc)
  case Nil
  then show ?case by simp
next
  case (Cons x xs)
  from Cons.prems have "e \<in> set (foldl add_entry (add_entry acc x) xs)" by simp
  then have "e \<in> set (add_entry acc x) \<or> Some e \<in> set xs" by (rule Cons.IH)
  then show ?case using set_add_entry[of e acc x] by auto
qed

lemma hierarchy_entries_origin:
  assumes "e \<in> set (hierarchy_entries delimiter prefix blobs)"
  obtains nb where "nb \<in> set blobs" and "blob_entry delimiter prefix nb = Some e"
  using set_foldl_add_entry[OF assms[unfolded hierarchy_entries_def]] by auto

lemma find_delimiter_None: "find_delimiter [c] s = None \<Longrightarrow> c \<notin> set s"
  by (induction s) (auto simp: starts_with_def split: if_splits)

lemma find_delimiter_Some:
  "find_delimiter [c] s = Some i \<Longrightarrow> i < length s \<and> s ! i = c \<and> c \<notin> set (take i s)"
proof (induction s arbitrary: i)
  case Nil
  then show ?case by simp
next
  case (Cons a s)
  show ?case
  proof (cases "a = c")
    case True
    with Cons.prems show ?thesis by (simp add: starts_with_def)
  next
    case False
    with Cons.prems obtain j where j: "find_delimiter [c] s = Some j" and i: "i = Suc j"
      by (auto simp: starts_with_def)
    from Cons.IH[OF j] False i show ?thesis by simp
  qed
qed

lemma blob_entry_item_one_level:
  assumes "blob_entry ''/'' prefix nb = Some (EItem b)"
  shows "one_level prefix (item_name b)"
  using assms
  by (auto simp: blob_entry_def one_level_def Let_def split: if_splits option.splits
      dest!: find_delimiter_None)

lemma starts_with_append: "starts_with p (p @ s)"
  by (simp add: starts_with_def)

lemma blob_entry_prefix_one_level:
  assumes "blob_entry ''/'' prefix nb = Some (EPrefix p)"
  shows "directory_one_level prefix (prefix_name p)"
proof -
  from assms obtain i where
    i: "find_delimiter ''/'' (drop (length prefix) (fst nb)) = Some i"
    and p: "prefix_name p = prefix @ take (Suc i) (drop (length prefix) (fst nb))"
    by (auto simp: blob_entry_def Let_def split: if_splits option.splits)
  let ?rest = "drop (length prefix) (fst nb)"
  from find_delimiter_Some[OF i]
  have "i < length ?rest" "?rest ! i = CHR ''/''" "CHR ''/'' \<notin> set (take i ?rest)"
    by simp_all
  then have "take (Suc i) ?rest = take i ?rest @ ''/''"
    by (simp add: take_Suc_conv_app_nth)
  with p \<open>CHR ''/'' \<notin> set (take i ?rest)\<close> show ?thesis
    by (simp add: directory_one_level_def starts_with_append)
qed

lemma mem_pages:
  assumes "sdk_listBlobsByHierarchy mem_sdk client (Some d) prefix settings w = Inr pages"
  obtains blobs where "map_of (mem_containers w) (containerName client) = Some blobs"
    and "pages = mem_paginate (page_size (maxPageSize settings))
              (resume_at (settings_continuationToken settings)
                 (hierarchy_entries d (folder_prefix prefix) blobs))"
  using assms
  by (auto simp: mem_sdk_def mem_listBlobsByHierarchy_def folder_prefix_def
      split: option.splits if_splits)

lemma mem_page_item:
  assumes "sdk_listBlobsByHierarchy mem_sdk client (Some d) prefix settings w = Inr pages"
    and "page \<in> set pages" and "b \<in> set (blobItems (segment page))"
  obtains nb where "blob_entry d (folder_prefix prefix) nb = Some (EItem b)"
proof -
  from assms(1) obtain blobs where
    pages: "pages = mem_paginate (page_size (maxPageSize settings))
              (resume_at (settings_continuationToken settings)
                 (hierarchy_entries d (folder_prefix prefix) blobs))"
    by (rule mem_pages)
  from assms(2,3) have "b \<in> set (concat (map (\<lambda>page. blobItems (segment page)) pages))"
    by auto
  then have "EItem b \<in> set (resume_at (settings_continuationToken settings)
                 (hierarchy_entries d (folder_prefix prefix) blobs))"
    by (simp only: pages paginate_items set_entry_items)
  then have "EItem b \<in> set (hierarchy_entries d (folder_prefix prefix) blobs)"
    using set_resume_at by blast
  then show thesis
    by (rule hierarchy_entries_origin) (rule that)
qed

lemma mem_page_prefix:
  assumes "sdk_listBlobsByHierarchy mem_sdk client (Some d) prefix settings w = Inr pages"
    and "page \<in> set pages" and "p \<in> set (blobPrefixes (segment page))"
  obtains nb where "blob_entry d (folder_prefix prefix) nb = Some (EPrefix p)"
proof -
  from assms(1) obtain blobs where
    pages: "pages = mem_paginate (page_size (maxPageSize settings))
              (resume_at (settings_continuationToken settings)
                 (hierarchy_entries d (folder_prefix prefix) blobs))"
    by (rule mem_pages)
  from assms(2,3) have "p \<in> set (concat (map (\<lambda>page. blobPrefixes (segment page)) pages))"
    by auto
  then have "EPrefix p \<in> set (resume_at (settings_continuationToken settings)
                 (hierarchy_entries d (folder_prefix prefix) blobs))"
    by (simp only: pages paginate_prefixes set_entry_prefixes)
  then have "EPrefix p \<in> set (hierarchy_entries d (folder_prefix prefix) blobs)"
    using set_resume_at by blast
  then show thesis
    by (rule hierarchy_entries_origin) (rule that)
qed

text \<open>
  A listing that is not recursive, on the in-memory account: every file descriptor has a
  name without a delimiter after the folder, every directory descriptor is one level
  under the folder.
\<close>

lemma mem_listing_one_level:
  assumes "listBlobs mem_sdk this container options token w = Inr r"
    and "recursive options \<noteq> Some True" and "d \<in> set (data r)"
  shows "if isDirectory d then directory_one_level (folder_prefix (folder options)) (name d)
         else one_level (folder_prefix (folder options)) (name d)"
proof -
  let ?settings = "\<lparr> settings_continuationToken = token, maxPageSize = limit options \<rparr>"
  from assms(1,2) obtain pages where
    pages: "sdk_listBlobsByHierarchy mem_sdk (getContainerClient this container) (Some ''/'')
              (folder options) ?settings w = Inr pages"
    and data: "data r = concat (map (page_descriptors container) pages)"
    by (auto elim: listBlobs_InrD)
  from assms(3) data obtain page where page: "page \<in> set pages"
    and "d \<in> set (page_descriptors container page)"
    by auto
  then consider p where "p \<in> set (blobPrefixes (segment page))" "d = prefix_descriptor container p"
    | b where "b \<in> set (blobItems (segment page))" "d = item_descriptor container b"
    using page_descriptors_cases by blast
  then show ?thesis
  proof cases
    case 1
    with pages page obtain nb
      where "blob_entry ''/'' (folder_prefix (folder options)) nb = Some (EPrefix p)"
      by (auto elim: mem_page_prefix)
    then have "directory_one_level (folder_prefix (folder options)) (prefix_name p)"
      by (rule blob_entry_prefix_one_level)
    with 1 show ?thesis by (simp add: prefix_descriptor_def)
  next
    case 2
    with pages page obtain nb
      where "blob_entry ''/'' (folder_prefix (folder options)) nb = Some (EItem b)"
      by (auto elim: mem_page_item)
    then have "one_level (folder_prefix (folder options)) (item_name b)"
      by (rule blob_entry_item_one_level)
    with 2 show ?thesis by (simp add: item_descriptor_def)
  qed
qed

subsection \<open>deleteBlobIfExists and createContainerIfNotExists\<close>

lemma deletes_if_exists_cases:
  assumes "deletes_if_exists sdk served present" and "served client w"
  shows "if present client w
         then \<exists>w'. sdk_deleteIfExists sdk client options w = (Inr True, w')
                \<and> served client w' \<and> \<not> present client w'
         else sdk_deleteIfExists sdk client options w = (Inr False, w)"
proof -
  from assms(1) have "served client w \<longrightarrow>
     (if present client w
      then \<exists>w'. sdk_deleteIfExists sdk client options w = (Inr True, w')
             \<and> served client w' \<and> \<not> present client w'
      else sdk_deleteIfExists sdk client options w = (Inr False, w))"
    unfolding deletes_if_exists_def by blast
  with assms(2) show ?thesis by blast
qed

lemma creates_if_not_exists_cases:
  assumes "creates_if_not_exists sdk served exists" and "served client w"
  shows "if exists client w
         then sdk_createIfNotExists sdk client options w = (Inr False, w)
         else \<exists>w'. sdk_createIfNotExists sdk client options w = (Inr True, w')
                \<and> served client w' \<and> exists client w'"
proof -
  from assms(1) have "served client w \<longrightarrow>
     (if exists client w
      then sdk_createIfNotExists sdk client options w = (Inr False, w)
      else \<exists>w'. sdk_createIfNotExists sdk client options w = (Inr True, w')
             \<and> served client w' \<and> exists client w')"
    unfolding creates_if_not_exists_def by blast
  with assms(2) show ?thesis by blast
qed

text \<open>
  C3, as amended. Both operations return what the library's call returns. With a library
  that keeps the contract of \<open>deleteIfExists\<close> and \<open>createIfNotExists\<close>, and from a
  state in which it meets no provider failure, two successive calls on the same blob
  return, first, whether the blob was present, then false; on the same container, first,
  whether the container was absent, then false. So the pair is true then false when the
  blob is present (the container absent) and false then false otherwise, and in both
  cases each call returns a value and not an error.
\<close>

theorem if_exists_flags:
  assumes "deletes_if_exists sdk served present"
    and "creates_if_not_exists sdk served' exists"
    and "served (getBlobClient this container blob) w"
    and "served' (getContainerClient this container') w"
  shows
    "deleteBlobIfExists sdk this container blob options w =
       sdk_deleteIfExists sdk (getBlobClient this container blob) options w
     \<and> createContainerIfNotExists sdk this container' options w =
       sdk_createIfNotExists sdk (getContainerClient this container') options w
     \<and> (\<exists>w1. deleteBlobIfExists sdk this container blob options w =
               (Inr (present (getBlobClient this container blob) w), w1)
             \<and> deleteBlobIfExists sdk this container blob options w1 = (Inr False, w1))
     \<and> (\<exists>w1. createContainerIfNotExists sdk this container' options w =
               (Inr (\<not> exists (getContainerClient this container') w), w1)
             \<and> createContainerIfNotExists sdk this container' options w1 = (Inr False, w1))"
proof (intro conjI)
  let ?blob = "getBlobClient this container blob"
  let ?container = "getContainerClient this container'"
  show "deleteBlobIfExists sdk this container blob options w =
          sdk_deleteIfExists sdk ?blob options w"
    by (simp add: deleteBlobIfExists_def)
  show "createContainerIfNotExists sdk this container' options w =
          sdk_createIfNotExists sdk ?container options w"
    by (simp add: createContainerIfNotExists_def)
  show "\<exists>w1. deleteBlobIfExists sdk this container blob options w = (Inr (present ?blob w), w1)
          \<and> deleteBlobIfExists sdk this container blob options w1 = (Inr False, w1)"
  proof (cases "present ?blob w")
    case True
    with deletes_if_exists_cases[OF assms(1,3), of options] obtain w1 where
      first: "sdk_deleteIfExists sdk ?blob options w = (Inr True, w1)"
      and after: "served ?blob w1" "\<not> present ?blob w1"
      by auto
    from deletes_if_exists_cases[OF assms(1) after(1), of options] after(2)
    have "sdk_deleteIfExists sdk ?blob options w1 = (Inr False, w1)"
      by simp
    with first True show ?thesis
      by (simp add: deleteBlobIfExists_def)
  next
    case False
    with deletes_if_exists_cases[OF assms(1,3), of options]
    have "sdk_deleteIfExists sdk ?blob options w = (Inr False, w)"
      by simp
    with False show ?thesis
      by (simp add: deleteBlobIfExists_def)
  qed
  show "\<exists>w1. createContainerIfNotExists sdk this container' options w =
            (Inr (\<not> exists ?container w), w1)
          \<and> createContainerIfNotExists sdk this container' options w1 = (Inr False, w1)"
  proof (cases "exists ?container w")
    case True
    with creates_if_not_exists_cases[OF assms(2,4), of options]
    have "sdk_createIfNotExists sdk ?container options w = (Inr False, w)"
      by simp
    with True show ?thesis
      by (simp add: createContainerIfNotExists_def)
  next
    case False
    with creates_if_not_exists_cases[OF assms(2,4), of options] obtain w1 where
      first: "sdk_createIfNotExists sdk ?container options w = (Inr True, w1)"
      and after: "served' ?container w1" "exists ?container w1"
      by auto
    from creates_if_not_exists_cases[OF assms(2) after(1), of options] after(2)
    have "sdk_createIfNotExists sdk ?container options w1 = (Inr False, w1)"
      by simp
    with first False show ?thesis
      by (simp add: createContainerIfNotExists_def)
  qed
qed

theorem if_exists_flags_witness:
  "(\<exists>w1. deleteBlobIfExists mem_sdk demo_proxy ''grp-1'' ''1001/$TaskOutput/z.txt'' None
            demo_world = (Inr True, w1)
         \<and> deleteBlobIfExists mem_sdk demo_proxy ''grp-1'' ''1001/$TaskOutput/z.txt'' None w1
            = (Inr False, w1))
   \<and> (\<exists>w1. deleteBlobIfExists mem_sdk demo_proxy ''grp-1'' ''missing.txt'' None demo_world
            = (Inr False, w1)
         \<and> deleteBlobIfExists mem_sdk demo_proxy ''grp-1'' ''missing.txt'' None w1
            = (Inr False, w1))
   \<and> (\<exists>w1. createContainerIfNotExists mem_sdk demo_proxy ''grp-2'' None demo_world
            = (Inr True, w1)
         \<and> createContainerIfNotExists mem_sdk demo_proxy ''grp-2'' None w1 = (Inr False, w1))
   \<and> (\<exists>w1. createContainerIfNotExists mem_sdk demo_proxy ''grp-1'' None demo_world
            = (Inr False, w1)
         \<and> createContainerIfNotExists mem_sdk demo_proxy ''grp-1'' None w1 = (Inr False, w1))"
proof -
  let ?z = "''1001/$TaskOutput/z.txt''"
  have served:
    "mem_delete_served (getBlobClient demo_proxy ''grp-1'' ?z) demo_world"
    "mem_delete_served (getBlobClient demo_proxy ''grp-1'' ''missing.txt'') demo_world"
    "mem_create_served (getContainerClient demo_proxy ''grp-2'') demo_world"
    "mem_create_served (getContainerClient demo_proxy ''grp-1'') demo_world"
    by (simp_all add: mem_delete_served_def mem_create_served_def mem_exists_def demo_defs)
  have there: "mem_present (getBlobClient demo_proxy ''grp-1'' ?z) demo_world = True"
    and missing:
      "mem_present (getBlobClient demo_proxy ''grp-1'' ''missing.txt'') demo_world = False"
    by (simp_all add: mem_present_def demo_defs)
  have fresh: "mem_exists (getContainerClient demo_proxy ''grp-2'') demo_world = False"
    and old: "mem_exists (getContainerClient demo_proxy ''grp-1'') demo_world = True"
    by (simp_all add: mem_exists_def demo_defs)
  note kept = if_exists_flags [OF mem_deletes_if_exists mem_creates_if_not_exists]
  note first = kept [OF served(1) served(3), where options = None]
  note second = kept [OF served(2) served(4), where options = None]
  note a = first [THEN conjunct2, THEN conjunct2, THEN conjunct1, unfolded there]
  note c = first [THEN conjunct2, THEN conjunct2, THEN conjunct2, unfolded fresh not_False_eq_True]
  note b = second [THEN conjunct2, THEN conjunct2, THEN conjunct1, unfolded missing]
  note d = second [THEN conjunct2, THEN conjunct2, THEN conjunct2, unfolded old not_True_eq_False]
  from a b c d show ?thesis by (intro conjI)
qed

text \<open>
  C3 as stated says that from any state two successive calls return true then false. On
  the in-memory account, deleting a blob that is not there returns false at the first
  call and leaves the account as it was, and so does creating a container that is
  already there.
\<close>

theorem twice_from_absent_counterexample:
  "deleteBlobIfExists mem_sdk demo_proxy ''grp-1'' ''missing.txt'' None demo_world
     = (Inr False, demo_world)
   \<and> createContainerIfNotExists mem_sdk demo_proxy ''grp-1'' None demo_world
     = (Inr False, demo_world)"
  by (simp add: deleteBlobIfExists_def createContainerIfNotExists_def demo_defs
      mem_deleteIfExists_def mem_createIfNotExists_def)

subsection \<open>listBlobs: the recursive listing\<close>

text \<open>
  C4. For a listing that is not recursive the proxy asks the library with the delimiter
  \<open>/\<close>, as claimed. A recursive listing is claimed to return all blobs under the
  prefix flattened, and the option's own comment says it lists all files; but the proxy
  asks the same hierarchical listing with \<open>null\<close> for the delimiter, and its
  outcome is whatever the library makes of that. The library takes a delimiter string
  and fails on \<open>null\<close>: on the in-memory account, whose container \<open>grp-1\<close>
  holds four blobs under \<open>1001/$TaskOutput/\<close>, the recursive listing is an error
  and returns no blob.
\<close>

theorem listBlobs_recursive_null_delimiter:
  "listBlobs sdk this container (options\<lparr> recursive := Some True \<rparr>) token st =
     (case sdk_listBlobsByHierarchy sdk (getContainerClient this container) None
             (folder options)
             \<lparr> settings_continuationToken = token, maxPageSize = limit options \<rparr> st of
        Inl e \<Rightarrow> Inl e
      | Inr pages \<Rightarrow>
          Inr \<lparr> data = concat (map (page_descriptors container) pages),
                continuationToken = token \<rparr>)
   \<and> sdk_listBlobsByHierarchy mem_sdk (getContainerClient demo_proxy ''grp-1'') None
       (folder demo_options)
       \<lparr> settings_continuationToken = None, maxPageSize = limit demo_options \<rparr> demo_world
     = Inl MalformedRequest
   \<and> listBlobs mem_sdk demo_proxy ''grp-1'' (demo_options\<lparr> recursive := Some True \<rparr>) None
       demo_world
     = Inl MalformedRequest"
proof (intro conjI)
  show "listBlobs sdk this container (options\<lparr> recursive := Some True \<rparr>) token st =
     (case sdk_listBlobsByHierarchy sdk (getContainerClient this container) None
             (folder options)
             \<lparr> settings_continuationToken = token, maxPageSize = limit options \<rparr> st of
        Inl e \<Rightarrow> Inl e
      | Inr pages \<Rightarrow>
          Inr \<lparr> data = concat (map (page_descriptors container) pages),
                continuationToken = token \<rparr>)"
    by (simp add: listBlobs_unfold)
  show refused:
    "sdk_listBlobsByHierarchy mem_sdk (getContainerClient demo_proxy ''grp-1'') None
       (folder demo_options)
       \<lparr> settings_continuationToken = None, maxPageSize = limit demo_options \<rparr> demo_world
     = Inl MalformedRequest"
    by (simp add: mem_sdk_def mem_listBlobsByHierarchy_def)
  then show "listBlobs mem_sdk demo_proxy ''grp-1'' (demo_options\<lparr> recursive := Some True \<rparr>)
       None demo_world = Inl MalformedRequest"
    by (simp add: listBlobs_unfold)
qed

subsection \<open>UTF-8: decoding what was encoded\<close>

lemma decoder_ascii:
  "b \<le> 0x7F \<Longrightarrow>
     utf8_decoder cp seen 0 lower upper (b # bs) = b # utf8_decoder 0 0 0 0x80 0xBF bs"
  by (subst utf8_decoder.simps) simp

lemma decoder_lead2:
  "0xC2 \<le> b \<Longrightarrow> b \<le> 0xDF \<Longrightarrow>
     utf8_decoder cp seen 0 lower upper (b # bs) = utf8_decoder (b mod 32) 0 1 0x80 0xBF bs"
  by (subst utf8_decoder.simps) simp

lemma decoder_lead3:
  "0xE0 \<le> b \<Longrightarrow> b \<le> 0xEF \<Longrightarrow>
     utf8_decoder cp seen 0 lower upper (b # bs) =
       utf8_decoder (b mod 16) 0 2
         (if b = 0xE0 then 0xA0 else 0x80) (if b = 0xED then 0x9F else 0xBF) bs"
  by (subst utf8_decoder.simps) simp

lemma decoder_lead4:
  "0xF0 \<le> b \<Longrightarrow> b \<le> 0xF4 \<Longrightarrow>
     utf8_decoder cp seen 0 lower upper (b # bs) =
       utf8_decoder (b mod 8) 0 3
         (if b = 0xF0 then 0x90 else 0x80) (if b = 0xF4 then 0x8F else 0xBF) bs"
  by (subst utf8_decoder.simps) simp

lemma decoder_last:
  "needed \<noteq> 0 \<Longrightarrow> lower \<le> b \<Longrightarrow> b \<le> upper \<Longrightarrow> seen + 1 = needed \<Longrightarrow>
     utf8_decoder cp seen needed lower upper (b # bs) =
       (cp * 64 + b mod 64) # utf8_decoder 0 0 0 0x80 0xBF bs"
  by (subst utf8_decoder.simps) simp

lemma decoder_more:
  "needed \<noteq> 0 \<Longrightarrow> lower \<le> b \<Longrightarrow> b \<le> upper \<Longrightarrow> seen + 1 \<noteq> needed \<Longrightarrow>
     utf8_decoder cp seen needed lower upper (b # bs) =
       utf8_decoder (cp * 64 + b mod 64) (seen + 1) needed 0x80 0xBF bs"
  by (subst utf8_decoder.simps) simp



lemma div_lt: "(n::nat) < k * 64 \<Longrightarrow> n div 64 < k"
  by (simp add: div_less_iff_less_mult)

lemma div_ge: "k * 64 \<le> (n::nat) \<Longrightarrow> k \<le> n div 64"
  by (simp add: less_eq_div_iff_mult_less_eq)

lemma div4096_lt: "(n::nat) < k * 4096 \<Longrightarrow> n div 4096 < k"
  by (simp add: div_less_iff_less_mult)

lemma div4096_ge: "k * 4096 \<le> (n::nat) \<Longrightarrow> k \<le> n div 4096"
  by (simp add: less_eq_div_iff_mult_less_eq)

lemma div262144_lt: "(n::nat) < k * 262144 \<Longrightarrow> n div 262144 < k"
  by (simp add: div_less_iff_less_mult)

lemma split64: "(n::nat) div 64 * 64 + n mod 64 = n"
  by simp

lemma div4096: "(n::nat) div 4096 = n div 64 div 64"
  by (simp add: div_mult2_eq[symmetric])

lemma div262144: "(n::nat) div 262144 = n div 4096 div 64"
  by (simp add: div_mult2_eq[symmetric])

lemma split4096: "(n::nat) div 4096 * 64 + (n div 64) mod 64 = n div 64"
  by (simp add: div4096)

lemma split262144: "(n::nat) div 262144 * 64 + (n div 4096) mod 64 = n div 4096"
  by (simp add: div262144)

lemma lead_mod32: "(n::nat) < 32 \<Longrightarrow> (192 + n) mod 32 = n"
proof -
  assume "n < 32"
  have "(192 + n) mod 32 = (n + 32 * 6) mod 32" by (simp add: add.commute)
  also have "\<dots> = n mod 32" by (rule mod_mult_self2)
  finally show ?thesis using \<open>n < 32\<close> by simp
qed

lemma lead_mod16: "(n::nat) < 16 \<Longrightarrow> (224 + n) mod 16 = n"
proof -
  assume "n < 16"
  have "(224 + n) mod 16 = (n + 16 * 14) mod 16" by (simp add: add.commute)
  also have "\<dots> = n mod 16" by (rule mod_mult_self2)
  finally show ?thesis using \<open>n < 16\<close> by simp
qed

lemma lead_mod8: "(n::nat) < 8 \<Longrightarrow> (240 + n) mod 8 = n"
proof -
  assume "n < 8"
  have "(240 + n) mod 8 = (n + 8 * 30) mod 8" by (simp add: add.commute)
  also have "\<dots> = n mod 8" by (rule mod_mult_self2)
  finally show ?thesis using \<open>n < 8\<close> by simp
qed

lemma continuation_mod64: "(128 + (n::nat) mod 64) mod 64 = n mod 64"
proof -
  have "(128 + n mod 64) mod 64 = (n mod 64 + 64 * 2) mod 64" by (simp add: add.commute)
  also have "\<dots> = n mod 64 mod 64" by (rule mod_mult_self2)
  finally show ?thesis by simp
qed

lemma continuation_range: "128 \<le> 128 + (n::nat) mod 64 \<and> 128 + n mod 64 \<le> 191"
proof -
  have "n mod 64 < 64" by simp
  then show ?thesis by linarith
qed


lemma decode_one_byte:
  assumes "cp < 0x80"
  shows "utf8_decode (utf8_encode_code_point cp @ bs) = cp # utf8_decode bs"
  using assms by (simp add: utf8_decode_def utf8_encode_code_point_def decoder_ascii)

lemma decode_two_bytes:
  assumes "0x80 \<le> cp" and "cp < 0x800"
  shows "utf8_decode (utf8_encode_code_point cp @ bs) = cp # utf8_decode bs"
proof -
  let ?b1 = "0xC0 + cp div 64" and ?b2 = "0x80 + cp mod 64"
  from assms have hi: "2 \<le> cp div 64" "cp div 64 < 32"
    using div_ge[of 2 cp] div_lt[of cp 32] by simp_all
  then have lead: "0xC2 \<le> ?b1" "?b1 \<le> 0xDF" by simp_all
  have "utf8_decoder 0 0 0 0x80 0xBF (?b1 # ?b2 # bs)
        = utf8_decoder (?b1 mod 32) 0 1 0x80 0xBF (?b2 # bs)"
    using lead by (rule decoder_lead2)
  also have "\<dots> = (?b1 mod 32 * 64 + ?b2 mod 64) # utf8_decoder 0 0 0 0x80 0xBF bs"
    using continuation_range[of cp] by (intro decoder_last) simp_all
  also have "?b1 mod 32 * 64 + ?b2 mod 64 = cp"
    using hi by (simp add: lead_mod32 continuation_mod64)
  finally show ?thesis
    using assms by (simp add: utf8_decode_def utf8_encode_code_point_def)
qed

lemma decode_three_bytes:
  assumes "0x800 \<le> cp" and "cp < 0x10000" and "\<not> (0xD800 \<le> cp \<and> cp \<le> 0xDFFF)"
  shows "utf8_decode (utf8_encode_code_point cp @ bs) = cp # utf8_decode bs"
proof -
  let ?b1 = "0xE0 + cp div 4096" and ?b2 = "0x80 + (cp div 64) mod 64"
    and ?b3 = "0x80 + cp mod 64"
  let ?lower = "if ?b1 = 0xE0 then 0xA0 else 0x80"
    and ?upper = "if ?b1 = 0xED then 0x9F else 0xBF"
  from assms have hi: "cp div 4096 < 16"
    using div4096_lt[of cp 16] by simp
  then have lead: "0xE0 \<le> ?b1" "?b1 \<le> 0xEF" by simp_all
  have low: "?lower \<le> ?b2"
  proof (cases "cp div 4096 = 0")
    case True
    with split4096[of cp] have "(cp div 64) mod 64 = cp div 64" by simp
    moreover from assms have "32 \<le> cp div 64" using div_ge[of 32 cp] by simp
    ultimately show ?thesis by simp
  next
    case False
    then show ?thesis by simp
  qed
  have high: "?b2 \<le> ?upper"
  proof (cases "cp div 4096 = 13")
    case True
    with split4096[of cp] have "cp div 64 = 832 + (cp div 64) mod 64" by simp
    moreover have "cp < 0xD800"
    proof (rule ccontr)
      assume "\<not> cp < 0xD800"
      moreover from True have "cp div 4096 < 14" by simp
      then have "cp < 14 * 4096" by (simp add: div_less_iff_less_mult)
      ultimately show False using assms(3) by simp
    qed
    then have "cp div 64 < 864" using div_lt[of cp 864] by simp
    ultimately have "(cp div 64) mod 64 < 32" by linarith
    then show ?thesis by simp
  next
    case False
    have "(cp div 64) mod 64 < 64" by simp
    then have "?b2 \<le> 0xBF" by linarith
    with False show ?thesis by simp
  qed
  have "utf8_decoder 0 0 0 0x80 0xBF (?b1 # ?b2 # ?b3 # bs)
        = utf8_decoder (?b1 mod 16) 0 2 ?lower ?upper (?b2 # ?b3 # bs)"
    using lead by (rule decoder_lead3)
  also have "\<dots> = utf8_decoder (?b1 mod 16 * 64 + ?b2 mod 64) (0 + 1) 2 0x80 0xBF (?b3 # bs)"
    using low high by (intro decoder_more) simp_all
  also have "\<dots> = ((?b1 mod 16 * 64 + ?b2 mod 64) * 64 + ?b3 mod 64)
                    # utf8_decoder 0 0 0 0x80 0xBF bs"
    using continuation_range[of cp] by (intro decoder_last) simp_all
  also have "(?b1 mod 16 * 64 + ?b2 mod 64) * 64 + ?b3 mod 64 = cp"
    using hi by (simp add: lead_mod16 continuation_mod64 split4096)
  finally show ?thesis
    using assms by (simp add: utf8_decode_def utf8_encode_code_point_def)
qed

lemma decode_four_bytes:
  assumes "0x10000 \<le> cp" and "cp < 0x110000"
  shows "utf8_decode (utf8_encode_code_point cp @ bs) = cp # utf8_decode bs"
proof -
  let ?b1 = "0xF0 + cp div 262144" and ?b2 = "0x80 + (cp div 4096) mod 64"
    and ?b3 = "0x80 + (cp div 64) mod 64" and ?b4 = "0x80 + cp mod 64"
  let ?lower = "if ?b1 = 0xF0 then 0x90 else 0x80"
    and ?upper = "if ?b1 = 0xF4 then 0x8F else 0xBF"
  from assms have hi: "cp div 262144 < 5"
    using div262144_lt[of cp 5] by simp
  then have lead: "0xF0 \<le> ?b1" "?b1 \<le> 0xF4" by simp_all
  have low: "?lower \<le> ?b2"
  proof (cases "cp div 262144 = 0")
    case True
    with split262144[of cp] have "(cp div 4096) mod 64 = cp div 4096" by simp
    moreover from assms have "16 \<le> cp div 4096" using div4096_ge[of 16 cp] by simp
    ultimately show ?thesis by simp
  next
    case False
    then show ?thesis by simp
  qed
  have high: "?b2 \<le> ?upper"
  proof (cases "cp div 262144 = 4")
    case True
    with split262144[of cp] have "cp div 4096 = 256 + (cp div 4096) mod 64" by simp
    moreover from assms have "cp div 4096 < 272" using div4096_lt[of cp 272] by simp
    ultimately have "(cp div 4096) mod 64 < 16" by linarith
    then show ?thesis by simp
  next
    case False
    have "(cp div 4096) mod 64 < 64" by simp
    then have "?b2 \<le> 0xBF" by linarith
    with False show ?thesis by simp
  qed
  have "utf8_decoder 0 0 0 0x80 0xBF (?b1 # ?b2 # ?b3 # ?b4 # bs)
        = utf8_decoder (?b1 mod 8) 0 3 ?lower ?upper (?b2 # ?b3 # ?b4 # bs)"
    using lead by (rule decoder_lead4)
  also have "\<dots> = utf8_decoder (?b1 mod 8 * 64 + ?b2 mod 64) (0 + 1) 3 0x80 0xBF
                      (?b3 # ?b4 # bs)"
    using low high by (intro decoder_more) simp_all
  also have "\<dots> = utf8_decoder ((?b1 mod 8 * 64 + ?b2 mod 64) * 64 + ?b3 mod 64) (0 + 1 + 1) 3
                      0x80 0xBF (?b4 # bs)"
    using continuation_range[of "cp div 64"] by (intro decoder_more) simp_all
  also have "\<dots> = (((?b1 mod 8 * 64 + ?b2 mod 64) * 64 + ?b3 mod 64) * 64 + ?b4 mod 64)
                    # utf8_decoder 0 0 0 0x80 0xBF bs"
    using continuation_range[of cp] by (intro decoder_last) simp_all
  also have "((?b1 mod 8 * 64 + ?b2 mod 64) * 64 + ?b3 mod 64) * 64 + ?b4 mod 64 = cp"
    using hi by (simp add: lead_mod8 continuation_mod64 split262144 split4096)
  finally show ?thesis
    using assms by (simp add: utf8_decode_def utf8_encode_code_point_def)
qed

lemma decode_code_point:
  assumes "scalar_value cp"
  shows "utf8_decode (utf8_encode_code_point cp @ bs) = cp # utf8_decode bs"
proof -
  consider "cp < 0x80" | "0x80 \<le> cp" "cp < 0x800" | "0x800 \<le> cp" "cp < 0x10000"
    | "0x10000 \<le> cp"
    by linarith
  then show ?thesis
  proof cases
    case 1 then show ?thesis by (rule decode_one_byte)
  next
    case 2 then show ?thesis by (rule decode_two_bytes)
  next
    case 3 with assms show ?thesis by (intro decode_three_bytes) (simp_all add: scalar_value_def)
  next
    case 4 with assms show ?thesis by (intro decode_four_bytes) (simp_all add: scalar_value_def)
  qed
qed

lemma utf8_decode_Nil: "utf8_decode [] = []"
  by (simp add: utf8_decode_def utf8_decoder.simps)

lemma utf8_round_trip:
  assumes "\<forall>cp \<in> set t. scalar_value cp"
  shows "utf8_decode (utf8_encode t) = t"
  using assms
  by (induction t) (simp_all add: utf8_encode_def utf8_decode_Nil decode_code_point)

subsection \<open>getBlobContent\<close>

lemma utf8_label_not_empty: "is_utf8_label label \<Longrightarrow> label \<noteq> []"
  by (auto simp: is_utf8_label_def strip_ascii_whitespace_def)

lemma strip_bom_id: "take 1 t \<noteq> [0xFEFF] \<Longrightarrow> strip_bom t = t"
  by (cases t) (simp_all add: strip_bom_def)

lemma getBlobContent_download_error:
  assumes "sdk_downloadToBuffer sdk (getBlobClient this container blob) 0 None options st = Inl e"
  shows "getBlobContent env sdk this container blob options st = Inl e"
  using assms by (simp add: getBlobContent_def getBlobAsBuffer_def)

lemma getBlobContent_unfold:
  assumes "sdk_downloadToBuffer sdk (getBlobClient this container blob) 0 None options st
             = Inr buffer"
    and "detectEncodingFromBuffer env buffer (length buffer) = Inr encoding"
  shows "getBlobContent env sdk this container blob options st =
     (if js_truthy encoding
      then map_sum id (\<lambda>decoded. \<lparr> content = decoded \<rparr>)
             (textDecoder_decode env (js_template encoding) buffer)
      else Inr \<lparr> content = buffer_toString env buffer \<rparr>)"
  using assms by (simp add: getBlobContent_def getBlobAsBuffer_def split: sum.splits)

text \<open>
  C6, as amended. \<open>getBlobContent\<close> downloads the blob's bytes from the library and
  passes a failure of the download on. When the detector names an encoding, the content
  is what a \<open>TextDecoder\<close> for that encoding decodes from the bytes (or its error);
  when it names none, the content is \<open>buffer.toString()\<close>. With the runtime's
  decoders, for a blob that holds the UTF-8 encoding of a text of scalar values: when the
  detector names none the content is the text; when it names UTF-8 the content is the
  text without its leading byte order mark, if it has one.
\<close>

theorem getBlobContent_decodes:
  "(sdk_downloadToBuffer sdk (getBlobClient this container blob) 0 None options st = Inl e
      \<longrightarrow> getBlobContent env sdk this container blob options st = Inl e)
   \<and> (sdk_downloadToBuffer sdk (getBlobClient this container blob) 0 None options st
        = Inr buffer \<longrightarrow>
        (detectEncodingFromBuffer env buffer (length buffer) = Inr (Some encoding)
           \<longrightarrow> encoding \<noteq> []
           \<longrightarrow> getBlobContent env sdk this container blob options st =
                 map_sum id (\<lambda>decoded. \<lparr> content = decoded \<rparr>)
                   (textDecoder_decode env encoding buffer))
        \<and> (detectEncodingFromBuffer env buffer (length buffer) = Inr absent
           \<longrightarrow> \<not> js_truthy absent
           \<longrightarrow> getBlobContent env sdk this container blob options st =
                 Inr \<lparr> content = buffer_toString env buffer \<rparr>)
        \<and> ((\<forall>cp \<in> set t. scalar_value cp)
           \<longrightarrow> buffer = utf8_encode t
           \<longrightarrow> (detect buffer (length buffer) = Inr None
                  \<longrightarrow> getBlobContent (runtime_env detect other) sdk this container blob
                        options st = Inr \<lparr> content = t \<rparr>)
               \<and> (detect buffer (length buffer) = Inr (Some label)
                  \<longrightarrow> is_utf8_label label
                  \<longrightarrow> getBlobContent (runtime_env detect other) sdk this container blob
                        options st = Inr \<lparr> content = strip_bom t \<rparr>)))"
proof (intro conjI impI)
  assume "sdk_downloadToBuffer sdk (getBlobClient this container blob) 0 None options st = Inl e"
  then show "getBlobContent env sdk this container blob options st = Inl e"
    by (rule getBlobContent_download_error)
next
  assume "sdk_downloadToBuffer sdk (getBlobClient this container blob) 0 None options st
            = Inr buffer"
    and "detectEncodingFromBuffer env buffer (length buffer) = Inr (Some encoding)"
    and "encoding \<noteq> []"
  then show "getBlobContent env sdk this container blob options st =
      map_sum id (\<lambda>decoded. \<lparr> content = decoded \<rparr>) (textDecoder_decode env encoding buffer)"
    by (simp add: getBlobContent_unfold js_truthy_def js_template_def)
next
  assume "sdk_downloadToBuffer sdk (getBlobClient this container blob) 0 None options st
            = Inr buffer"
    and "detectEncodingFromBuffer env buffer (length buffer) = Inr absent"
    and "\<not> js_truthy absent"
  then show "getBlobContent env sdk this container blob options st =
      Inr \<lparr> content = buffer_toString env buffer \<rparr>"
    by (simp add: getBlobContent_unfold)
next
  assume "sdk_downloadToBuffer sdk (getBlobClient this container blob) 0 None options st
            = Inr buffer"
    and "\<forall>cp \<in> set t. scalar_value cp" and "buffer = utf8_encode t"
    and "detect buffer (length buffer) = Inr None"
  then show "getBlobContent (runtime_env detect other) sdk this container blob options st
      = Inr \<lparr> content = t \<rparr>"
    by (simp add: getBlobContent_unfold[where encoding = None] runtime_env_def js_truthy_def
        utf8_round_trip)
next
  assume "sdk_downloadToBuffer sdk (getBlobClient this container blob) 0 None options st
            = Inr buffer"
    and "\<forall>cp \<in> set t. scalar_value cp" and "buffer = utf8_encode t"
    and "detect buffer (length buffer) = Inr (Some label)" and "is_utf8_label label"
  then show "getBlobContent (runtime_env detect other) sdk this container blob options st
      = Inr \<lparr> content = strip_bom t \<rparr>"
    by (simp add: getBlobContent_unfold[where encoding = "Some label"] runtime_env_def
        js_truthy_def js_template_def utf8_label_not_empty utf8_round_trip)
qed

theorem getBlobContent_decodes_witness:
  "getBlobContent (runtime_env bom_detector (\<lambda>label bytes. Inl RangeError))
     mem_sdk demo_proxy ''grp-1'' ''1001/$TaskOutput/a.txt'' None demo_world
     = Inr \<lparr> content = [104, 233, 8364] \<rparr>
   \<and> getBlobContent (runtime_env (\<lambda>bytes n. Inr (Some '' UTF-8 '')) (\<lambda>label bytes. Inl RangeError))
     mem_sdk demo_proxy ''grp-1'' ''1001/$TaskOutput/a.txt'' None demo_world
     = Inr \<lparr> content = [104, 233, 8364] \<rparr>
   \<and> getBlobContent (runtime_env (\<lambda>bytes n. Inr (Some ''latin1'')) (\<lambda>label bytes. Inr bytes))
     mem_sdk demo_proxy ''grp-1'' ''1001/$TaskOutput/a.txt'' None demo_world
     = Inr \<lparr> content = [104, 195, 169, 226, 130, 172] \<rparr>
   \<and> getBlobContent (runtime_env bom_detector (\<lambda>label bytes. Inl RangeError))
     mem_sdk demo_proxy ''grp-1'' ''missing.txt'' None demo_world
     = Inl NotFound"
proof -
  let ?bytes = "[104, 195, 169, 226, 130, 172] :: nat list"
  let ?a = "''1001/$TaskOutput/a.txt''"
  have download:
    "sdk_downloadToBuffer mem_sdk (getBlobClient demo_proxy ''grp-1'' ?a) 0 None None demo_world
      = Inr ?bytes"
    by (simp add: demo_defs mem_downloadToBuffer_def mem_find_blob_def)
  have failed:
    "sdk_downloadToBuffer mem_sdk (getBlobClient demo_proxy ''grp-1'' ''missing.txt'') 0 None
       None demo_world = Inl NotFound"
    by (simp add: demo_defs mem_downloadToBuffer_def mem_find_blob_def)
  have encoded: "utf8_encode [104, 233, 8364] = ?bytes"
    by (simp add: utf8_encode_def utf8_encode_code_point_def)
  have scalars: "\<forall>cp \<in> set [104, 233, 8364]. scalar_value cp"
    by (simp add: scalar_value_def)
  have label: "is_utf8_label '' UTF-8 ''" "\<not> is_utf8_label ''latin1''"
    by (simp_all add: is_utf8_label_def strip_ascii_whitespace_def ascii_whitespace_def
        ascii_lower_def)
  have unnamed: "bom_detector ?bytes (length ?bytes) = Inr None"
    by (simp add: bom_detector_def)
  have named: "(\<lambda>bytes n. Inr (Some '' UTF-8 '')) ?bytes (length ?bytes) = Inr (Some '' UTF-8 '')"
    by simp
  have latin: "detectEncodingFromBuffer
      (runtime_env (\<lambda>bytes n. Inr (Some ''latin1'')) (\<lambda>label bytes. Inr bytes)) ?bytes
      (length ?bytes) = Inr (Some ''latin1'')"
    by (simp add: runtime_env_def)
  note first =
    getBlobContent_decodes
      [where sdk = mem_sdk and this = demo_proxy and container = "''grp-1''" and blob = ?a
         and options = None and st = demo_world and buffer = ?bytes
         and t = "[104, 233, 8364]" and detect = bom_detector
         and other = "\<lambda>label bytes. Inl RangeError",
       THEN conjunct2, THEN mp, OF download,
       THEN conjunct2, THEN conjunct2, THEN mp, OF scalars, THEN mp, OF encoded[symmetric],
       THEN conjunct1, THEN mp, OF unnamed]
  note second =
    getBlobContent_decodes
      [where sdk = mem_sdk and this = demo_proxy and container = "''grp-1''" and blob = ?a
         and options = None and st = demo_world and buffer = ?bytes
         and t = "[104, 233, 8364]" and detect = "\<lambda>bytes n. Inr (Some '' UTF-8 '')"
         and label = "'' UTF-8 ''" and other = "\<lambda>label bytes. Inl RangeError",
       THEN conjunct2, THEN mp, OF download,
       THEN conjunct2, THEN conjunct2, THEN mp, OF scalars, THEN mp, OF encoded[symmetric],
       THEN conjunct2, THEN mp, OF named, THEN mp, OF label(1),
       unfolded strip_bom_id[of "[104, 233, 8364]", simplified]]
  note third =
    getBlobContent_decodes
      [where sdk = mem_sdk and this = demo_proxy and container = "''grp-1''" and blob = ?a
         and options = None and st = demo_world and buffer = ?bytes
         and env = "runtime_env (\<lambda>bytes n. Inr (Some ''latin1'')) (\<lambda>label bytes. Inr bytes)"
         and encoding = "''latin1''",
       THEN conjunct2, THEN mp, OF download,
       THEN conjunct1, THEN mp, OF latin, THEN mp]
  have third':
    "getBlobContent (runtime_env (\<lambda>bytes n. Inr (Some ''latin1'')) (\<lambda>label bytes. Inr bytes))
       mem_sdk demo_proxy ''grp-1'' ?a None demo_world
     = Inr \<lparr> content = ?bytes \<rparr>"
    using third label(2) by (simp add: runtime_env_def)
  note fourth =
    getBlobContent_decodes
      [where sdk = mem_sdk and this = demo_proxy and container = "''grp-1''"
         and blob = "''missing.txt''" and options = None and st = demo_world and e = NotFound
         and env = "runtime_env bom_detector (\<lambda>label bytes. Inl RangeError)",
       THEN conjunct1, THEN mp, OF failed]
  from first second third' fourth show ?thesis by (intro conjI)
qed

text \<open>
  C6 as stated says that for a blob holding UTF-8 encoded text the returned string
  equals the original text. The blob \<open>bom.txt\<close> holds the UTF-8 encoding of the text
  of the two code points U+FEFF and U+0068; the detector finds the byte order mark and
  names UTF-8, the decoder drops the mark, and the content is the one code point U+0068.
\<close>

theorem getBlobContent_drops_bom_counterexample:
  "sdk_downloadToBuffer mem_sdk (getBlobClient demo_proxy ''grp-1'' ''bom.txt'') 0 None None
     bom_world = Inr (utf8_encode [0xFEFF, 0x68])
   \<and> getBlobContent (runtime_env bom_detector (\<lambda>label bytes. Inl RangeError))
       mem_sdk demo_proxy ''grp-1'' ''bom.txt'' None bom_world
     = Inr \<lparr> content = [0x68] \<rparr>
   \<and> [0x68] \<noteq> [0xFEFF, 0x68 :: nat]"
proof -
  have bytes: "utf8_encode [0xFEFF, 0x68] = [0xEF, 0xBB, 0xBF, 0x68]"
    by (simp add: utf8_encode_def utf8_encode_code_point_def)
  have download:
    "sdk_downloadToBuffer mem_sdk (getBlobClient demo_proxy ''grp-1'' ''bom.txt'') 0 None None
       bom_world = Inr [0xEF, 0xBB, 0xBF, 0x68]"
    by (simp add: bom_world_def demo_defs mem_downloadToBuffer_def mem_find_blob_def)
  have detected: "bom_detector [0xEF, 0xBB, 0xBF, 0x68] (length [0xEF, 0xBB, 0xBF, 0x68 :: nat])
      = Inr (Some ''utf8'')"
    by (simp add: bom_detector_def)
  have label: "is_utf8_label ''utf8''"
    by (simp add: is_utf8_label_def strip_ascii_whitespace_def ascii_whitespace_def
        ascii_lower_def)
  have decoded: "utf8_decode [0xEF, 0xBB, 0xBF, 0x68] = [0xFEFF, 0x68]"
    using utf8_round_trip[of "[0xFEFF, 0x68]"] by (simp add: bytes scalar_value_def)
  have "getBlobContent (runtime_env bom_detector (\<lambda>label bytes. Inl RangeError))
       mem_sdk demo_proxy ''grp-1'' ''bom.txt'' None bom_world
     = Inr \<lparr> content = [0x68] \<rparr>"
    using download detected label decoded
    by (simp add: getBlobContent_unfold[where encoding = "Some ''utf8''"] runtime_env_def
        js_truthy_def js_template_def strip_bom_def)
  with download bytes show ?thesis by simp
qed


end
